theory Spec2Isabelle
  imports Main
begin

section \<open>Values, effects and outcomes\<close>

text \<open>
  A JavaScript exception is a value; what the program prints and what it asks the
  remote API to do is recorded, in order, in a trace.  An awaited call either
  returns or throws, and in both cases the mutations made so far persist, so an
  outcome carries the state reached.
\<close>

datatype error = Error string

datatype event =
    ConsoleError string error
  | SendMessage int string
  | Note string

datatype 's outcome = Returned 's | Threw error 's

text \<open>Awaited statements in sequence: the first one that throws ends the sequence.\<close>

fun run_in_order :: "('s \<Rightarrow> 's outcome) list \<Rightarrow> 's \<Rightarrow> 's outcome" where
  "run_in_order [] s = Returned s"
| "run_in_order (f # fs) s =
     (case f s of Returned s' \<Rightarrow> run_in_order fs s' | Threw e s' \<Rightarrow> Threw e s')"

text \<open>\<^verbatim>\<open>if (b) { await f(ctx); }\<close>\<close>

definition if_then :: "bool \<Rightarrow> ('s \<Rightarrow> 's outcome) \<Rightarrow> 's \<Rightarrow> 's outcome" where
  "if_then b f s = (if b then f s else Returned s)"

section \<open>Updates and the dispatch context\<close>

text \<open>
  Of a \<^verbatim>\<open>Message\<close> the dispatch core reads \<^verbatim>\<open>chat.id\<close> and the optional
  \<^verbatim>\<open>text\<close>.  The fields of an \<^verbatim>\<open>Update\<close> typed \<^verbatim>\<open>any\<close> carry JSON objects,
  which are truthy whenever present.
\<close>

record Message =
  chat_id :: int
  msg_text :: "string option"

type_synonym json = string

record Update =
  update_id :: int
  message :: "Message option"
  edited_message :: "Message option"
  channel_post :: "Message option"
  edited_channel_post :: "Message option"
  business_message :: "Message option"
  edited_business_message :: "Message option"
  business_messages_deleted :: "json option"
  message_reaction :: "json option"
  message_reaction_count :: "json option"
  inline_query :: "json option"
  chosen_inline_result :: "json option"
  callback_query :: "json option"
  shipping_query :: "json option"
  pre_checkout_query :: "json option"
  poll :: "json option"
  poll_answer :: "json option"
  my_chat_member :: "json option"
  chat_member :: "json option"
  chat_join_request :: "json option"
  chat_boost :: "json option"
  removed_chat_boost :: "json option"
  business_connection :: "json option"

text \<open>
  The client is an external collaborator: for a chat and a text it tells whether the
  request is rejected.
\<close>

type_synonym TelegramClient = "int \<Rightarrow> string \<Rightarrow> error option"

text \<open>
  \<^verbatim>\<open>UpdateContext\<close>: the update, the client, and the open keys that the middleware of
  this library writes (\<^verbatim>\<open>command\<close>, \<^verbatim>\<open>args\<close>, \<^verbatim>\<open>botUsername\<close>; \<open>None\<close> is
  \<^verbatim>\<open>undefined\<close>).  The trace of effects travels with it.
\<close>

record UpdateContext =
  update :: Update
  client :: TelegramClient
  command :: "string option"
  args :: "string list option"
  botUsername :: "string option"
  trace :: "event list"

type_synonym UpdateHandlerFunction = "UpdateContext \<Rightarrow> UpdateContext outcome"

definition console_error :: "string \<Rightarrow> error \<Rightarrow> UpdateContext \<Rightarrow> UpdateContext" where
  "console_error label e c = c\<lparr>trace := trace c @ [ConsoleError label e]\<rparr>"

text \<open>\<^verbatim>\<open>await ctx.client.sendMessage({ chat_id, text })\<close>\<close>

definition sendMessage :: "int \<Rightarrow> string \<Rightarrow> UpdateContext \<Rightarrow> UpdateContext outcome" where
  "sendMessage chat txt c =
     (let c' = c\<lparr>trace := trace c @ [SendMessage chat txt]\<rparr>
      in case client c chat txt of None \<Rightarrow> Returned c' | Some e \<Rightarrow> Threw e c')"

section \<open>The middleware chain\<close>

text \<open>
  \<^verbatim>\<open>runMiddleware\<close> keeps a counter \<^verbatim>\<open>index\<close> in the closure of \<^verbatim>\<open>dispatch\<close>, shared by
  every call of the continuation.  The state threaded through the chain is that
  counter together with the context.  A stage receives the state and the
  continuation; the continuation is \<^verbatim>\<open>dispatch\<close> itself, so the recursion goes through
  an unknown function and is bounded by fuel: \<open>None\<close> means the fuel ran out.  A
  stage of the source cannot reach the counter; the stages defined below act on the
  context alone and pass the counter on as they find it.
\<close>

record dispatch_state =
  index :: nat
  ctx :: UpdateContext

type_synonym continuation = "dispatch_state \<Rightarrow> dispatch_state outcome option"

type_synonym MiddlewareFunction =
  "dispatch_state \<Rightarrow> continuation \<Rightarrow> dispatch_state outcome option"

text \<open>A call \<^verbatim>\<open>await handler(ctx)\<close> made from inside the chain.\<close>

definition on_ctx :: "UpdateHandlerFunction \<Rightarrow> dispatch_state \<Rightarrow> dispatch_state outcome" where
  "on_ctx f s =
     (case f (ctx s) of
        Returned c \<Rightarrow> Returned (s\<lparr>ctx := c\<rparr>)
      | Threw e c \<Rightarrow> Threw e (s\<lparr>ctx := c\<rparr>))"

datatype toggle =
    HandleEditedMessages
  | HandleChannelPosts
  | HandleInlineQueries
  | HandleCallbackQueries
  | HandleShippingQueries
  | HandlePreCheckoutQueries
  | HandlePolls
  | HandlePollAnswers
  | HandleChatMemberUpdates
  | HandleChatJoinRequests
  | HandleChatBoosts
  | HandleBusinessConnections
  | HandleBusinessMessages
  | HandleMessageReactions

text \<open>\<^verbatim>\<open>UpdateHandlerConfig\<close>: every field is optional.\<close>

type_synonym UpdateHandlerConfig = "toggle \<Rightarrow> bool option"

record UpdateHandler =
  middleware :: "MiddlewareFunction list"
  messageHandlers :: "UpdateHandlerFunction list"
  editedMessageHandlers :: "UpdateHandlerFunction list"
  channelPostHandlers :: "UpdateHandlerFunction list"
  editedChannelPostHandlers :: "UpdateHandlerFunction list"
  businessConnectionHandlers :: "UpdateHandlerFunction list"
  businessMessageHandlers :: "UpdateHandlerFunction list"
  editedBusinessMessageHandlers :: "UpdateHandlerFunction list"
  businessMessagesDeletedHandlers :: "UpdateHandlerFunction list"
  messageReactionHandlers :: "UpdateHandlerFunction list"
  messageReactionCountHandlers :: "UpdateHandlerFunction list"
  inlineQueryHandlers :: "UpdateHandlerFunction list"
  chosenInlineResultHandlers :: "UpdateHandlerFunction list"
  callbackQueryHandlers :: "UpdateHandlerFunction list"
  shippingQueryHandlers :: "UpdateHandlerFunction list"
  preCheckoutQueryHandlers :: "UpdateHandlerFunction list"
  pollHandlers :: "UpdateHandlerFunction list"
  pollAnswerHandlers :: "UpdateHandlerFunction list"
  myChatMemberHandlers :: "UpdateHandlerFunction list"
  chatMemberHandlers :: "UpdateHandlerFunction list"
  chatJoinRequestHandlers :: "UpdateHandlerFunction list"
  chatBoostHandlers :: "UpdateHandlerFunction list"
  removedChatBoostHandlers :: "UpdateHandlerFunction list"
  config :: "toggle \<Rightarrow> bool"

text \<open>The constructor: every toggle defaults to true, the given fields override.\<close>

definition new_UpdateHandler :: "UpdateHandlerConfig \<Rightarrow> UpdateHandler" where
  "new_UpdateHandler cfg =
     \<lparr> middleware = [], messageHandlers = [], editedMessageHandlers = [],
       channelPostHandlers = [], editedChannelPostHandlers = [],
       businessConnectionHandlers = [], businessMessageHandlers = [],
       editedBusinessMessageHandlers = [], businessMessagesDeletedHandlers = [],
       messageReactionHandlers = [], messageReactionCountHandlers = [],
       inlineQueryHandlers = [], chosenInlineResultHandlers = [],
       callbackQueryHandlers = [], shippingQueryHandlers = [],
       preCheckoutQueryHandlers = [], pollHandlers = [], pollAnswerHandlers = [],
       myChatMemberHandlers = [], chatMemberHandlers = [],
       chatJoinRequestHandlers = [], chatBoostHandlers = [],
       removedChatBoostHandlers = [],
       config = (\<lambda>t. case cfg t of None \<Rightarrow> True | Some b \<Rightarrow> b) \<rparr>"

definition use :: "MiddlewareFunction \<Rightarrow> UpdateHandler \<Rightarrow> UpdateHandler" where
  "use m h = h\<lparr>middleware := middleware h @ [m]\<rparr>"

definition onMessage :: "UpdateHandlerFunction \<Rightarrow> UpdateHandler \<Rightarrow> UpdateHandler" where
  "onMessage f h = h\<lparr>messageHandlers := messageHandlers h @ [f]\<rparr>"

definition onEditedMessage :: "UpdateHandlerFunction \<Rightarrow> UpdateHandler \<Rightarrow> UpdateHandler" where
  "onEditedMessage f h = h\<lparr>editedMessageHandlers := editedMessageHandlers h @ [f]\<rparr>"

definition onChannelPost :: "UpdateHandlerFunction \<Rightarrow> UpdateHandler \<Rightarrow> UpdateHandler" where
  "onChannelPost f h = h\<lparr>channelPostHandlers := channelPostHandlers h @ [f]\<rparr>"

definition onEditedChannelPost :: "UpdateHandlerFunction \<Rightarrow> UpdateHandler \<Rightarrow> UpdateHandler" where
  "onEditedChannelPost f h = h\<lparr>editedChannelPostHandlers := editedChannelPostHandlers h @ [f]\<rparr>"

definition onBusinessConnection :: "UpdateHandlerFunction \<Rightarrow> UpdateHandler \<Rightarrow> UpdateHandler" where
  "onBusinessConnection f h = h\<lparr>businessConnectionHandlers := businessConnectionHandlers h @ [f]\<rparr>"

definition onBusinessMessage :: "UpdateHandlerFunction \<Rightarrow> UpdateHandler \<Rightarrow> UpdateHandler" where
  "onBusinessMessage f h = h\<lparr>businessMessageHandlers := businessMessageHandlers h @ [f]\<rparr>"

definition onEditedBusinessMessage :: "UpdateHandlerFunction \<Rightarrow> UpdateHandler \<Rightarrow> UpdateHandler" where
  "onEditedBusinessMessage f h = h\<lparr>editedBusinessMessageHandlers := editedBusinessMessageHandlers h @ [f]\<rparr>"

definition onBusinessMessagesDeleted :: "UpdateHandlerFunction \<Rightarrow> UpdateHandler \<Rightarrow> UpdateHandler" where
  "onBusinessMessagesDeleted f h = h\<lparr>businessMessagesDeletedHandlers := businessMessagesDeletedHandlers h @ [f]\<rparr>"

definition onMessageReaction :: "UpdateHandlerFunction \<Rightarrow> UpdateHandler \<Rightarrow> UpdateHandler" where
  "onMessageReaction f h = h\<lparr>messageReactionHandlers := messageReactionHandlers h @ [f]\<rparr>"

definition onMessageReactionCount :: "UpdateHandlerFunction \<Rightarrow> UpdateHandler \<Rightarrow> UpdateHandler" where
  "onMessageReactionCount f h = h\<lparr>messageReactionCountHandlers := messageReactionCountHandlers h @ [f]\<rparr>"

definition onInlineQuery :: "UpdateHandlerFunction \<Rightarrow> UpdateHandler \<Rightarrow> UpdateHandler" where
  "onInlineQuery f h = h\<lparr>inlineQueryHandlers := inlineQueryHandlers h @ [f]\<rparr>"

definition onChosenInlineResult :: "UpdateHandlerFunction \<Rightarrow> UpdateHandler \<Rightarrow> UpdateHandler" where
  "onChosenInlineResult f h = h\<lparr>chosenInlineResultHandlers := chosenInlineResultHandlers h @ [f]\<rparr>"

definition onCallbackQuery :: "UpdateHandlerFunction \<Rightarrow> UpdateHandler \<Rightarrow> UpdateHandler" where
  "onCallbackQuery f h = h\<lparr>callbackQueryHandlers := callbackQueryHandlers h @ [f]\<rparr>"

definition onShippingQuery :: "UpdateHandlerFunction \<Rightarrow> UpdateHandler \<Rightarrow> UpdateHandler" where
  "onShippingQuery f h = h\<lparr>shippingQueryHandlers := shippingQueryHandlers h @ [f]\<rparr>"

definition onPreCheckoutQuery :: "UpdateHandlerFunction \<Rightarrow> UpdateHandler \<Rightarrow> UpdateHandler" where
  "onPreCheckoutQuery f h = h\<lparr>preCheckoutQueryHandlers := preCheckoutQueryHandlers h @ [f]\<rparr>"

definition onPoll :: "UpdateHandlerFunction \<Rightarrow> UpdateHandler \<Rightarrow> UpdateHandler" where
  "onPoll f h = h\<lparr>pollHandlers := pollHandlers h @ [f]\<rparr>"

definition onPollAnswer :: "UpdateHandlerFunction \<Rightarrow> UpdateHandler \<Rightarrow> UpdateHandler" where
  "onPollAnswer f h = h\<lparr>pollAnswerHandlers := pollAnswerHandlers h @ [f]\<rparr>"

definition onMyChatMember :: "UpdateHandlerFunction \<Rightarrow> UpdateHandler \<Rightarrow> UpdateHandler" where
  "onMyChatMember f h = h\<lparr>myChatMemberHandlers := myChatMemberHandlers h @ [f]\<rparr>"

definition onChatMember :: "UpdateHandlerFunction \<Rightarrow> UpdateHandler \<Rightarrow> UpdateHandler" where
  "onChatMember f h = h\<lparr>chatMemberHandlers := chatMemberHandlers h @ [f]\<rparr>"

definition onChatJoinRequest :: "UpdateHandlerFunction \<Rightarrow> UpdateHandler \<Rightarrow> UpdateHandler" where
  "onChatJoinRequest f h = h\<lparr>chatJoinRequestHandlers := chatJoinRequestHandlers h @ [f]\<rparr>"

definition onChatBoost :: "UpdateHandlerFunction \<Rightarrow> UpdateHandler \<Rightarrow> UpdateHandler" where
  "onChatBoost f h = h\<lparr>chatBoostHandlers := chatBoostHandlers h @ [f]\<rparr>"

definition onRemovedChatBoost :: "UpdateHandlerFunction \<Rightarrow> UpdateHandler \<Rightarrow> UpdateHandler" where
  "onRemovedChatBoost f h = h\<lparr>removedChatBoostHandlers := removedChatBoostHandlers h @ [f]\<rparr>"

text \<open>
  \<^verbatim>\<open>runHandlers\<close>: a loop over the list, each call in its own \<^verbatim>\<open>try\<close>; the \<^verbatim>\<open>catch\<close>
  prints the error and the loop goes on.
\<close>

fun runHandlers :: "UpdateHandlerFunction list \<Rightarrow> UpdateContext \<Rightarrow> UpdateContext outcome" where
  "runHandlers [] c = Returned c"
| "runHandlers (handler # handlers) c =
     (case handler c of
        Returned c' \<Rightarrow> runHandlers handlers c'
      | Threw e c' \<Rightarrow> runHandlers handlers (console_error ''Error in handler:'' e c'))"

text \<open>
  \<^verbatim>\<open>routeUpdate\<close>: \<^verbatim>\<open>update\<close> is read from the context once, then twenty-two
  \<^verbatim>\<open>if\<close> statements follow one another.
\<close>

definition route_steps :: "UpdateHandler \<Rightarrow> Update \<Rightarrow> UpdateHandlerFunction list" where
  "route_steps h u =
     [ if_then (message u \<noteq> None) (runHandlers (messageHandlers h)),
       if_then (edited_message u \<noteq> None \<and> config h HandleEditedMessages)
         (runHandlers (editedMessageHandlers h)),
       if_then (channel_post u \<noteq> None \<and> config h HandleChannelPosts)
         (runHandlers (channelPostHandlers h)),
       if_then (edited_channel_post u \<noteq> None \<and> config h HandleChannelPosts)
         (runHandlers (editedChannelPostHandlers h)),
       if_then (business_connection u \<noteq> None \<and> config h HandleBusinessConnections)
         (runHandlers (businessConnectionHandlers h)),
       if_then (business_message u \<noteq> None \<and> config h HandleBusinessMessages)
         (runHandlers (businessMessageHandlers h)),
       if_then (edited_business_message u \<noteq> None \<and> config h HandleBusinessMessages)
         (runHandlers (editedBusinessMessageHandlers h)),
       if_then (business_messages_deleted u \<noteq> None \<and> config h HandleBusinessMessages)
         (runHandlers (businessMessagesDeletedHandlers h)),
       if_then (message_reaction u \<noteq> None \<and> config h HandleMessageReactions)
         (runHandlers (messageReactionHandlers h)),
       if_then (message_reaction_count u \<noteq> None \<and> config h HandleMessageReactions)
         (runHandlers (messageReactionCountHandlers h)),
       if_then (inline_query u \<noteq> None \<and> config h HandleInlineQueries)
         (runHandlers (inlineQueryHandlers h)),
       if_then (chosen_inline_result u \<noteq> None \<and> config h HandleInlineQueries)
         (runHandlers (chosenInlineResultHandlers h)),
       if_then (callback_query u \<noteq> None \<and> config h HandleCallbackQueries)
         (runHandlers (callbackQueryHandlers h)),
       if_then (shipping_query u \<noteq> None \<and> config h HandleShippingQueries)
         (runHandlers (shippingQueryHandlers h)),
       if_then (pre_checkout_query u \<noteq> None \<and> config h HandlePreCheckoutQueries)
         (runHandlers (preCheckoutQueryHandlers h)),
       if_then (poll u \<noteq> None \<and> config h HandlePolls)
         (runHandlers (pollHandlers h)),
       if_then (poll_answer u \<noteq> None \<and> config h HandlePollAnswers)
         (runHandlers (pollAnswerHandlers h)),
       if_then (my_chat_member u \<noteq> None \<and> config h HandleChatMemberUpdates)
         (runHandlers (myChatMemberHandlers h)),
       if_then (chat_member u \<noteq> None \<and> config h HandleChatMemberUpdates)
         (runHandlers (chatMemberHandlers h)),
       if_then (chat_join_request u \<noteq> None \<and> config h HandleChatJoinRequests)
         (runHandlers (chatJoinRequestHandlers h)),
       if_then (chat_boost u \<noteq> None \<and> config h HandleChatBoosts)
         (runHandlers (chatBoostHandlers h)),
       if_then (removed_chat_boost u \<noteq> None \<and> config h HandleChatBoosts)
         (runHandlers (removedChatBoostHandlers h)) ]"

definition routeUpdate :: "UpdateHandler \<Rightarrow> UpdateContext \<Rightarrow> UpdateContext outcome" where
  "routeUpdate h c = run_in_order (route_steps h (update c)) c"

text \<open>
  \<^verbatim>\<open>dispatch\<close>: past the last stage it awaits \<^verbatim>\<open>next\<close>; otherwise it takes the stage at
  \<^verbatim>\<open>index\<close>, increments \<^verbatim>\<open>index\<close>, and awaits the stage with itself as continuation.
  Nothing is caught here.
\<close>

fun dispatch :: "nat \<Rightarrow> MiddlewareFunction list \<Rightarrow> continuation \<Rightarrow> continuation" where
  "dispatch 0 mws nxt s = None"
| "dispatch (Suc fuel) mws nxt s =
     (if index s \<ge> length mws then nxt s
      else (mws ! index s) (s\<lparr>index := index s + 1\<rparr>) (dispatch fuel mws nxt))"

definition runMiddleware ::
  "nat \<Rightarrow> UpdateHandler \<Rightarrow> UpdateContext \<Rightarrow> continuation \<Rightarrow> dispatch_state outcome option" where
  "runMiddleware fuel h c nxt = dispatch fuel (middleware h) nxt \<lparr>index = 0, ctx = c\<rparr>"

text \<open>The \<^verbatim>\<open>catch\<close> of \<^verbatim>\<open>processUpdate\<close>: print, then throw the same error again.\<close>

definition log_and_rethrow :: "UpdateContext outcome \<Rightarrow> UpdateContext outcome" where
  "log_and_rethrow r =
     (case r of
        Returned c \<Rightarrow> Returned c
      | Threw e c \<Rightarrow> Threw e (console_error ''Error processing update:'' e c))"

definition new_context :: "Update \<Rightarrow> TelegramClient \<Rightarrow> UpdateContext" where
  "new_context u cl =
     \<lparr> update = u, client = cl, command = None, args = None, botUsername = None,
       trace = [] \<rparr>"

definition processUpdate ::
  "nat \<Rightarrow> UpdateHandler \<Rightarrow> Update \<Rightarrow> TelegramClient \<Rightarrow> UpdateContext outcome option" where
  "processUpdate fuel h u cl =
     map_option (\<lambda>r. log_and_rethrow (map_outcome ctx r))
       (runMiddleware fuel h (new_context u cl) (\<lambda>s. Some (on_ctx (routeUpdate h) s)))"

section \<open>Shapes of stages\<close>

text \<open>
  A stage that calls its continuation exactly once:
  \<^verbatim>\<open>async (ctx, next) => { before(ctx); await next(); after(ctx); }\<close>
\<close>

definition proceeding_stage ::
  "UpdateHandlerFunction \<Rightarrow> UpdateHandlerFunction \<Rightarrow> MiddlewareFunction" where
  "proceeding_stage before after s nxt =
     (case on_ctx before s of
        Threw e s1 \<Rightarrow> Some (Threw e s1)
      | Returned s1 \<Rightarrow>
          (case nxt s1 of
             None \<Rightarrow> None
           | Some (Threw e s2) \<Rightarrow> Some (Threw e s2)
           | Some (Returned s2) \<Rightarrow> Some (on_ctx after s2)))"

section \<open>The command parser\<close>

text \<open>
  Strings are lists of bytes (UTF-8).  The separators and the marker are ASCII, and an
  ASCII byte never occurs inside a longer UTF-8 sequence, so splitting bytes at them
  gives the same pieces as the source's splitting of UTF-16 text.
\<close>

text \<open>\<^verbatim>\<open>String.prototype.split\<close> with a separator of one character.\<close>

fun split_on :: "char \<Rightarrow> string \<Rightarrow> string list" where
  "split_on sep [] = [[]]"
| "split_on sep (x # xs) =
     (if x = sep then [] # split_on sep xs
      else (case split_on sep xs of [] \<Rightarrow> [[x]] | w # ws \<Rightarrow> (x # w) # ws))"

text \<open>\<^verbatim>\<open>text.startsWith('/')\<close>\<close>

definition startsWith_slash :: "string \<Rightarrow> bool" where
  "startsWith_slash t = (case t of [] \<Rightarrow> False | x # _ \<Rightarrow> x = CHR ''/'')"

text \<open>
  What the body of the \<^verbatim>\<open>if\<close> computes from the text: \<^verbatim>\<open>command\<close>, \<^verbatim>\<open>args\<close> and
  \<^verbatim>\<open>botUsername\<close>.  \<^verbatim>\<open>split\<close> never returns an empty array.
\<close>

definition parse_text :: "string \<Rightarrow> string \<times> string list \<times> string option" where
  "parse_text t =
     (case split_on CHR '' '' t of
        [] \<Rightarrow> ([], [], None)
      | part0 # rest \<Rightarrow>
          (let commandPart = drop 1 part0
           in case split_on CHR ''@'' commandPart of
                [] \<Rightarrow> ([], rest, None)
              | cmd # others \<Rightarrow>
                  (cmd, rest, (case others of [] \<Rightarrow> None | b # _ \<Rightarrow> Some b))))"

definition parse_command :: "UpdateContext \<Rightarrow> UpdateContext" where
  "parse_command c =
     (let msg = (case message (update c) of
                   Some m \<Rightarrow> Some m
                 | None \<Rightarrow> business_message (update c))
      in case msg of
           None \<Rightarrow> c
         | Some m \<Rightarrow>
             (case msg_text m of
                None \<Rightarrow> c
              | Some t \<Rightarrow>
                  if startsWith_slash t
                  then (case parse_text t of
                          (cmd, as, suffix) \<Rightarrow>
                            c\<lparr>command := Some cmd, args := Some as, botUsername := suffix\<rparr>)
                  else c))"

definition commandParser :: MiddlewareFunction where
  "commandParser s nxt = nxt (s\<lparr>ctx := parse_command (ctx s)\<rparr>)"

section \<open>The command router\<close>

record CommandConfig =
  config_command :: string
  description :: "string option"
  handler :: UpdateHandlerFunction
  aliases :: "string list option"
  minArgs :: "int option"
  maxArgs :: "int option"
  ignoreCase :: "bool option"

text \<open>
  A JavaScript \<^verbatim>\<open>Map\<close> keeps its keys in the order of their first insertion; setting a
  key that is present replaces the value where it stands.
\<close>

fun map_set :: "'k \<Rightarrow> 'v \<Rightarrow> ('k \<times> 'v) list \<Rightarrow> ('k \<times> 'v) list" where
  "map_set k v [] = [(k, v)]"
| "map_set k v (p # ps) = (if fst p = k then (k, v) # ps else p # map_set k v ps)"

record CommandRouter =
  commandMap :: "(string \<times> CommandConfig) list"
  defaultHandler :: "UpdateHandlerFunction option"
  unknownCommandHandler :: "UpdateHandlerFunction option"
  helpCommand :: string

definition createCommandRouter :: CommandRouter where
  "createCommandRouter =
     \<lparr> commandMap = [], defaultHandler = None, unknownCommandHandler = None,
       helpCommand = ''help'' \<rparr>"

text \<open>
  \<^verbatim>\<open>String.prototype.toLowerCase\<close> belongs to the platform, not to the repository: the
  registration functions take it as the parameter \<open>lower\<close>.  The key under which a
  name is stored: \<^verbatim>\<open>config.ignoreCase ? name.toLowerCase() : name\<close>.
\<close>

definition map_key :: "(string \<Rightarrow> string) \<Rightarrow> CommandConfig \<Rightarrow> string \<Rightarrow> string" where
  "map_key lower cfg name = (if ignoreCase cfg = Some True then lower name else name)"

definition CommandRouter_command ::
  "(string \<Rightarrow> string) \<Rightarrow> CommandConfig \<Rightarrow> CommandRouter \<Rightarrow> CommandRouter" where
  "CommandRouter_command lower cfg r =
     (let commandName = map_key lower cfg (config_command cfg);
          m = map_set commandName cfg (commandMap r)
      in r\<lparr>commandMap :=
             (case aliases cfg of
                None \<Rightarrow> m
              | Some al \<Rightarrow> foldl (\<lambda>m' alias. map_set (map_key lower cfg alias) cfg m') m al)\<rparr>)"

definition CommandRouter_commands ::
  "(string \<Rightarrow> string) \<Rightarrow> CommandConfig list \<Rightarrow> CommandRouter \<Rightarrow> CommandRouter" where
  "CommandRouter_commands lower cfgs r =
     foldl (\<lambda>r' cfg. CommandRouter_command lower cfg r') r cfgs"

definition CommandRouter_default :: "UpdateHandlerFunction \<Rightarrow> CommandRouter \<Rightarrow> CommandRouter" where
  "CommandRouter_default f r = r\<lparr>defaultHandler := Some f\<rparr>"

definition CommandRouter_unknown :: "UpdateHandlerFunction \<Rightarrow> CommandRouter \<Rightarrow> CommandRouter" where
  "CommandRouter_unknown f r = r\<lparr>unknownCommandHandler := Some f\<rparr>"

definition CommandRouter_help :: "string \<Rightarrow> CommandRouter \<Rightarrow> CommandRouter" where
  "CommandRouter_help name r = r\<lparr>helpCommand := name\<rparr>"

text \<open>\<^verbatim>\<open>Array.prototype.join\<close>\<close>

fun join :: "string \<Rightarrow> string list \<Rightarrow> string" where
  "join sep [] = []"
| "join sep [x] = x"
| "join sep (x # y # ys) = x @ sep @ join sep (y # ys)"

text \<open>A description counts when it is truthy: present and not the empty string.\<close>

definition has_description :: "CommandConfig \<Rightarrow> bool" where
  "has_description cmd = (case description cmd of None \<Rightarrow> False | Some d \<Rightarrow> d \<noteq> [])"

definition help_line :: "CommandConfig \<Rightarrow> string" where
  "help_line cmd =
     ''/'' @ config_command cmd @ '' - '' @
     (case description cmd of None \<Rightarrow> ''undefined'' | Some d \<Rightarrow> d)"

definition generateHelp :: "CommandRouter \<Rightarrow> string" where
  "generateHelp r =
     (let commands = join [CHR 0x0A] (map help_line (filter has_description (map snd (commandMap r))))
      in if commands = [] then ''No commands available.'' else commands)"

text \<open>A number inside a template literal, for integers.\<close>

fun show_nat :: "nat \<Rightarrow> string" where
  "show_nat n =
     (if n < 10 then [char_of (48 + n)]
      else show_nat (n div 10) @ [char_of (48 + n mod 10)])"

declare show_nat.simps [simp del]

definition show_int :: "int \<Rightarrow> string" where
  "show_int i = (if i < 0 then CHR ''-'' # show_nat (nat (- i)) else show_nat (nat i))"

text \<open>
  \<^verbatim>\<open>if (ctx.update.message) { await ctx.client.sendMessage({ chat_id:
  ctx.update.message.chat.id, text }); }\<close>
\<close>

definition reply_if_message :: "string \<Rightarrow> UpdateContext \<Rightarrow> UpdateContext outcome" where
  "reply_if_message txt c =
     (case message (update c) of
        Some m \<Rightarrow> sendMessage (chat_id m) txt c
      | None \<Rightarrow> Returned c)"

text \<open>
  \<^verbatim>\<open>commandConfig.minArgs && (!ctx.args || ctx.args.length < commandConfig.minArgs)\<close>:
  zero is falsy, an array is truthy.
\<close>

definition below_minArgs :: "CommandConfig \<Rightarrow> UpdateContext \<Rightarrow> bool" where
  "below_minArgs cfg c =
     (case minArgs cfg of
        None \<Rightarrow> False
      | Some n \<Rightarrow> n \<noteq> 0 \<and> (case args c of None \<Rightarrow> True | Some as \<Rightarrow> int (length as) < n))"

text \<open>\<^verbatim>\<open>commandConfig.maxArgs && ctx.args && ctx.args.length > commandConfig.maxArgs\<close>\<close>

definition above_maxArgs :: "CommandConfig \<Rightarrow> UpdateContext \<Rightarrow> bool" where
  "above_maxArgs cfg c =
     (case maxArgs cfg of
        None \<Rightarrow> False
      | Some n \<Rightarrow> n \<noteq> 0 \<and> (case args c of None \<Rightarrow> False | Some as \<Rightarrow> int (length as) > n))"

definition CommandRouter_middleware :: "CommandRouter \<Rightarrow> MiddlewareFunction" where
  "CommandRouter_middleware r s nxt =
     (case (case command (ctx s) of None \<Rightarrow> None | Some cmd \<Rightarrow> if cmd = [] then None else Some cmd) of
        None \<Rightarrow>
          (case defaultHandler r of
             Some f \<Rightarrow> Some (on_ctx f s)
           | None \<Rightarrow> nxt s)
      | Some cmd \<Rightarrow>
          if cmd = helpCommand r
          then Some (on_ctx (reply_if_message (generateHelp r)) s)
          else
            (case map_of (commandMap r) cmd of
               Some commandConfig \<Rightarrow>
                 if below_minArgs commandConfig (ctx s)
                 then Some (on_ctx (reply_if_message
                        (''Command /'' @ cmd @ '' requires at least '' @
                         show_int (the (minArgs commandConfig)) @ '' arguments.'')) s)
                 else if above_maxArgs commandConfig (ctx s)
                 then Some (on_ctx (reply_if_message
                        (''Command /'' @ cmd @ '' accepts at most '' @
                         show_int (the (maxArgs commandConfig)) @ '' arguments.'')) s)
                 else Some (on_ctx (handler commandConfig) s)
             | None \<Rightarrow>
                 (case unknownCommandHandler r of
                    Some f \<Rightarrow> Some (on_ctx f s)
                  | None \<Rightarrow>
                      Some (on_ctx (reply_if_message
                        (''Unknown command: /'' @ cmd @ ''. Type /'' @ helpCommand r @
                         '' for available commands.'')) s))))"

section \<open>The kinds of update, as the router distinguishes them\<close>

text \<open>
  One kind for each field of an update that the router looks at, listed in the order in
  which it looks at them; with each kind its field, the toggle that governs it (none for
  a regular message) and its registry.
\<close>

datatype kind =
    KMessage
  | KEditedMessage
  | KChannelPost
  | KEditedChannelPost
  | KBusinessConnection
  | KBusinessMessage
  | KEditedBusinessMessage
  | KBusinessMessagesDeleted
  | KMessageReaction
  | KMessageReactionCount
  | KInlineQuery
  | KChosenInlineResult
  | KCallbackQuery
  | KShippingQuery
  | KPreCheckoutQuery
  | KPoll
  | KPollAnswer
  | KMyChatMember
  | KChatMember
  | KChatJoinRequest
  | KChatBoost
  | KRemovedChatBoost

definition declaration_order :: "kind list" where
  "declaration_order =
     [ KMessage, KEditedMessage, KChannelPost,
       KEditedChannelPost, KBusinessConnection, KBusinessMessage,
       KEditedBusinessMessage, KBusinessMessagesDeleted, KMessageReaction,
       KMessageReactionCount, KInlineQuery, KChosenInlineResult,
       KCallbackQuery, KShippingQuery, KPreCheckoutQuery,
       KPoll, KPollAnswer, KMyChatMember,
       KChatMember, KChatJoinRequest, KChatBoost,
       KRemovedChatBoost ]"

fun field_present :: "Update \<Rightarrow> kind \<Rightarrow> bool" where
  "field_present u KMessage = (message u \<noteq> None)"
| "field_present u KEditedMessage = (edited_message u \<noteq> None)"
| "field_present u KChannelPost = (channel_post u \<noteq> None)"
| "field_present u KEditedChannelPost = (edited_channel_post u \<noteq> None)"
| "field_present u KBusinessConnection = (business_connection u \<noteq> None)"
| "field_present u KBusinessMessage = (business_message u \<noteq> None)"
| "field_present u KEditedBusinessMessage = (edited_business_message u \<noteq> None)"
| "field_present u KBusinessMessagesDeleted = (business_messages_deleted u \<noteq> None)"
| "field_present u KMessageReaction = (message_reaction u \<noteq> None)"
| "field_present u KMessageReactionCount = (message_reaction_count u \<noteq> None)"
| "field_present u KInlineQuery = (inline_query u \<noteq> None)"
| "field_present u KChosenInlineResult = (chosen_inline_result u \<noteq> None)"
| "field_present u KCallbackQuery = (callback_query u \<noteq> None)"
| "field_present u KShippingQuery = (shipping_query u \<noteq> None)"
| "field_present u KPreCheckoutQuery = (pre_checkout_query u \<noteq> None)"
| "field_present u KPoll = (poll u \<noteq> None)"
| "field_present u KPollAnswer = (poll_answer u \<noteq> None)"
| "field_present u KMyChatMember = (my_chat_member u \<noteq> None)"
| "field_present u KChatMember = (chat_member u \<noteq> None)"
| "field_present u KChatJoinRequest = (chat_join_request u \<noteq> None)"
| "field_present u KChatBoost = (chat_boost u \<noteq> None)"
| "field_present u KRemovedChatBoost = (removed_chat_boost u \<noteq> None)"

fun governing_toggle :: "kind \<Rightarrow> toggle option" where
  "governing_toggle KMessage = None"
| "governing_toggle KEditedMessage = Some HandleEditedMessages"
| "governing_toggle KChannelPost = Some HandleChannelPosts"
| "governing_toggle KEditedChannelPost = Some HandleChannelPosts"
| "governing_toggle KBusinessConnection = Some HandleBusinessConnections"
| "governing_toggle KBusinessMessage = Some HandleBusinessMessages"
| "governing_toggle KEditedBusinessMessage = Some HandleBusinessMessages"
| "governing_toggle KBusinessMessagesDeleted = Some HandleBusinessMessages"
| "governing_toggle KMessageReaction = Some HandleMessageReactions"
| "governing_toggle KMessageReactionCount = Some HandleMessageReactions"
| "governing_toggle KInlineQuery = Some HandleInlineQueries"
| "governing_toggle KChosenInlineResult = Some HandleInlineQueries"
| "governing_toggle KCallbackQuery = Some HandleCallbackQueries"
| "governing_toggle KShippingQuery = Some HandleShippingQueries"
| "governing_toggle KPreCheckoutQuery = Some HandlePreCheckoutQueries"
| "governing_toggle KPoll = Some HandlePolls"
| "governing_toggle KPollAnswer = Some HandlePollAnswers"
| "governing_toggle KMyChatMember = Some HandleChatMemberUpdates"
| "governing_toggle KChatMember = Some HandleChatMemberUpdates"
| "governing_toggle KChatJoinRequest = Some HandleChatJoinRequests"
| "governing_toggle KChatBoost = Some HandleChatBoosts"
| "governing_toggle KRemovedChatBoost = Some HandleChatBoosts"

fun registry :: "UpdateHandler \<Rightarrow> kind \<Rightarrow> UpdateHandlerFunction list" where
  "registry h KMessage = messageHandlers h"
| "registry h KEditedMessage = editedMessageHandlers h"
| "registry h KChannelPost = channelPostHandlers h"
| "registry h KEditedChannelPost = editedChannelPostHandlers h"
| "registry h KBusinessConnection = businessConnectionHandlers h"
| "registry h KBusinessMessage = businessMessageHandlers h"
| "registry h KEditedBusinessMessage = editedBusinessMessageHandlers h"
| "registry h KBusinessMessagesDeleted = businessMessagesDeletedHandlers h"
| "registry h KMessageReaction = messageReactionHandlers h"
| "registry h KMessageReactionCount = messageReactionCountHandlers h"
| "registry h KInlineQuery = inlineQueryHandlers h"
| "registry h KChosenInlineResult = chosenInlineResultHandlers h"
| "registry h KCallbackQuery = callbackQueryHandlers h"
| "registry h KShippingQuery = shippingQueryHandlers h"
| "registry h KPreCheckoutQuery = preCheckoutQueryHandlers h"
| "registry h KPoll = pollHandlers h"
| "registry h KPollAnswer = pollAnswerHandlers h"
| "registry h KMyChatMember = myChatMemberHandlers h"
| "registry h KChatMember = chatMemberHandlers h"
| "registry h KChatJoinRequest = chatJoinRequestHandlers h"
| "registry h KChatBoost = chatBoostHandlers h"
| "registry h KRemovedChatBoost = removedChatBoostHandlers h"

definition enabled :: "UpdateHandler \<Rightarrow> kind \<Rightarrow> bool" where
  "enabled h k = (case governing_toggle k of None \<Rightarrow> True | Some t \<Rightarrow> config h t)"

section \<open>The parsing rule as the specification words it\<close>

text \<open>
  The specification has the command text split on whitespace.  This is that rule, with
  a separator at every whitespace character; the rest is as in \<open>parse_text\<close>.
\<close>

definition is_whitespace :: "char \<Rightarrow> bool" where
  "is_whitespace ch =
     (ch = CHR '' '' \<or> ch = CHR 0x09 \<or> ch = CHR 0x0A \<or> ch = CHR 0x0B \<or> ch = CHR 0x0C \<or>
      ch = CHR 0x0D)"

fun split_whitespace :: "string \<Rightarrow> string list" where
  "split_whitespace [] = [[]]"
| "split_whitespace (x # xs) =
     (if is_whitespace x then [] # split_whitespace xs
      else (case split_whitespace xs of [] \<Rightarrow> [[x]] | w # ws \<Rightarrow> (x # w) # ws))"

definition spec_parse_text :: "string \<Rightarrow> string \<times> string list \<times> string option" where
  "spec_parse_text t =
     (case split_whitespace t of
        [] \<Rightarrow> ([], [], None)
      | part0 # rest \<Rightarrow>
          (case split_on CHR ''@'' (drop 1 part0) of
             [] \<Rightarrow> ([], rest, None)
           | cmd # others \<Rightarrow>
               (cmd, rest, (case others of [] \<Rightarrow> None | b # _ \<Rightarrow> Some b))))"

section \<open>Sample stages, handlers and updates\<close>

definition mark :: "string \<Rightarrow> UpdateHandlerFunction" where
  "mark name c = Returned (c\<lparr>trace := trace c @ [Note name]\<rparr>)"


definition accepting_client :: TelegramClient where
  "accepting_client chat txt = None"

definition empty_update :: Update where
  "empty_update =
     \<lparr> update_id = 1, message = None, edited_message = None, channel_post = None,
       edited_channel_post = None, business_message = None,
       edited_business_message = None, business_messages_deleted = None,
       message_reaction = None, message_reaction_count = None, inline_query = None,
       chosen_inline_result = None, callback_query = None, shipping_query = None,
       pre_checkout_query = None, poll = None, poll_answer = None,
       my_chat_member = None, chat_member = None, chat_join_request = None,
       chat_boost = None, removed_chat_boost = None, business_connection = None \<rparr>"

definition text_message :: "int \<Rightarrow> string \<Rightarrow> Message" where
  "text_message chat t = \<lparr> chat_id = chat, msg_text = Some t \<rparr>"

definition update_with_message :: "string \<Rightarrow> Update" where
  "update_with_message t = empty_update\<lparr>message := Some (text_message 7 t)\<rparr>"

definition update_with_business_message :: "string \<Rightarrow> Update" where
  "update_with_business_message t = empty_update\<lparr>business_message := Some (text_message 7 t)\<rparr>"

definition all_defaults :: UpdateHandlerConfig where
  "all_defaults t = None"

definition plain_command :: "string \<Rightarrow> string option \<Rightarrow> UpdateHandlerFunction \<Rightarrow> CommandConfig" where
  "plain_command name descr f =
     \<lparr> config_command = name, description = descr, handler = f, aliases = None,
       minArgs = None, maxArgs = None, ignoreCase = None \<rparr>"

definition stage_A :: "UpdateHandlerFunction \<times> UpdateHandlerFunction" where
  "stage_A = (mark ''A before'', mark ''A after'')"


definition stage_C :: "UpdateHandlerFunction \<times> UpdateHandlerFunction" where
  "stage_C = (mark ''C before'', mark ''C after'')"

definition as_stage :: "UpdateHandlerFunction \<times> UpdateHandlerFunction \<Rightarrow> MiddlewareFunction" where
  "as_stage p = proceeding_stage (fst p) (snd p)"


definition routing_handler :: UpdateHandler where
  "routing_handler =
     onInlineQuery (mark ''inline'') (onBusinessMessage (mark ''business'')
       (onEditedMessage (mark ''edited'') (onMessage (mark ''message'')
         (new_UpdateHandler (all_defaults(HandleInlineQueries := Some False))))))"

definition mixed_update :: Update where
  "mixed_update =
     empty_update\<lparr> message := Some (text_message 7 ''hi''),
                    edited_message := Some (text_message 7 ''hi!''),
                    business_message := Some (text_message 7 ''hi''),
                    inline_query := Some ''{}'' \<rparr>"




definition parsed_state :: "Update \<Rightarrow> dispatch_state" where
  "parsed_state u = \<lparr> index = 1, ctx = new_context u accepting_client \<rparr>"

text \<open>
  On ASCII text \<^verbatim>\<open>toLowerCase\<close> changes the letters A to Z and nothing else; the names
  of the samples are ASCII.
\<close>

definition ascii_lower :: "string \<Rightarrow> string" where
  "ascii_lower t =
     map (\<lambda>ch. let n = (of_char ch :: nat)
               in if 65 \<le> n \<and> n \<le> 90 then char_of (n + 32) else ch) t"

definition arity_command :: CommandConfig where
  "arity_command = (plain_command ''cmd'' None (mark ''ran''))\<lparr>minArgs := Some 2, maxArgs := Some 3\<rparr>"

definition arity_router :: CommandRouter where
  "arity_router = CommandRouter_command ascii_lower arity_command createCommandRouter"

definition command_bot :: "CommandRouter \<Rightarrow> UpdateHandler" where
  "command_bot r =
     use (CommandRouter_middleware r) (use commandParser
       (onBusinessMessage (mark ''business handler'') (onMessage (mark ''message handler'')
          (new_UpdateHandler all_defaults))))"

definition router_state :: "Update \<Rightarrow> dispatch_state" where
  "router_state u = \<lparr> index = 2, ctx = parse_command (new_context u accepting_client) \<rparr>"

definition help_router :: CommandRouter where
  "help_router =
     CommandRouter_commands ascii_lower
       [ plain_command ''start'' (Some ''Start the bot'') (mark ''start handler''),
         plain_command ''debug'' None (mark ''debug handler''),
         plain_command ''help'' (Some ''Show help'') (mark ''help handler'') ]
       createCommandRouter"

definition no_argument_command :: CommandConfig where
  "no_argument_command = (plain_command ''ping'' None (mark ''ran''))\<lparr>maxArgs := Some 0\<rparr>"

definition aliased_command :: CommandConfig where
  "aliased_command =
     (plain_command ''ping'' (Some ''Ping'') (mark ''ran''))\<lparr>aliases := Some [''p'']\<rparr>"

definition relisted_commands :: "CommandConfig list" where
  "relisted_commands =
     [ plain_command ''start'' (Some ''Start the bot'') (mark ''start handler''),
       plain_command ''debug'' None (mark ''debug handler''),
       plain_command ''help'' (Some ''Show help'') (mark ''help handler''),
       (plain_command ''Start'' (Some ''Start again'') (mark ''second start handler''))
         \<lparr>ignoreCase := Some True\<rparr> ]"

definition rejecting_client :: TelegramClient where
  "rejecting_client chat txt = Some (Error ''rejected'')"

definition parser_stage :: "UpdateHandlerFunction \<times> UpdateHandlerFunction" where
  "parser_stage = ((\<lambda>c. Returned (parse_command c)), Returned)"

definition routed_handler :: UpdateHandler where
  "routed_handler =
     use (as_stage stage_C) (use (CommandRouter_middleware arity_router) (use commandParser
       (use (as_stage stage_A) (onMessage (mark ''T'') (new_UpdateHandler all_defaults)))))"

section \<open>Properties of the middleware chain\<close>

lemma run_in_order_append:
  "run_in_order (fs @ gs) s =
     (case run_in_order fs s of Returned s' \<Rightarrow> run_in_order gs s' | Threw e s' \<Rightarrow> Threw e s')"
  by (induction fs arbitrary: s) (auto split: outcome.splits)

lemma map_outcome_on_ctx: "map_outcome ctx (on_ctx f s) = f (ctx s)"
  by (simp add: on_ctx_def split: outcome.splits)

lemma drop_eq_ConsD:
  assumes "drop n xs = y # ys"
  shows "n < length xs" and "xs ! n = y" and "drop (Suc n) xs = ys"
proof -
  show n: "n < length xs" using assms by (cases "n < length xs") auto
  from Cons_nth_drop_Suc[OF n] assms show "xs ! n = y" and "drop (Suc n) xs = ys" by auto
qed

lemma dispatch_proceeding:
  assumes "drop (index s) mws = map (\<lambda>(b, a). proceeding_stage b a) ps @ rest"
  shows "map_option (map_outcome ctx) (dispatch (length ps + fuel) mws nxt s) =
     (case run_in_order (map fst ps) (ctx s) of
        Threw e c \<Rightarrow> Some (Threw e c)
      | Returned c \<Rightarrow>
          (case map_option (map_outcome ctx)
                  (dispatch fuel mws nxt \<lparr>index = index s + length ps, ctx = c\<rparr>) of
             None \<Rightarrow> None
           | Some (Threw e c') \<Rightarrow> Some (Threw e c')
           | Some (Returned c') \<Rightarrow> Some (run_in_order (rev (map snd ps)) c')))"
  using assms
proof (induction ps arbitrary: s)
  case Nil
  have eq: "\<lparr>index = index s, ctx = ctx s\<rparr> = s" by simp
  show ?case by (simp add: eq split: option.splits outcome.splits)
next
  case (Cons p ps)
  obtain b a where p: "p = (b, a)" by (cases p)
  from Cons.prems p have d: "drop (index s) mws = proceeding_stage b a # (map (\<lambda>(b, a). proceeding_stage b a) ps @ rest)"
    by simp
  note facts = drop_eq_ConsD[OF d]
  show ?case
  proof (cases "b (ctx s)")
    case (Threw e c)
    then show ?thesis using facts p
      by (simp add: proceeding_stage_def on_ctx_def)
  next
    case (Returned c)
    let ?s1 = "s\<lparr>index := index s + 1, ctx := c\<rparr>"
    have ih: "map_option (map_outcome ctx) (dispatch (length ps + fuel) mws nxt ?s1) = 
       (case run_in_order (map fst ps) c of
        Threw e c \<Rightarrow> Some (Threw e c)
      | Returned c \<Rightarrow>
          (case map_option (map_outcome ctx)
                  (dispatch fuel mws nxt \<lparr>index = index s + 1 + length ps, ctx = c\<rparr>) of
             None \<Rightarrow> None
           | Some (Threw e c') \<Rightarrow> Some (Threw e c')
           | Some (Returned c') \<Rightarrow> Some (run_in_order (rev (map snd ps)) c')))"
      using Cons.IH[of ?s1] facts(3) by (simp cong: outcome.case_cong option.case_cong)
    show ?thesis using facts(1,2) p Returned ih
      by (auto simp add: proceeding_stage_def on_ctx_def run_in_order_append map_outcome_on_ctx
           split: option.splits outcome.splits cong: outcome.case_cong option.case_cong)
  qed
qed

lemma processUpdate_via_ctx:
  "processUpdate fuel h u cl =
     map_option log_and_rethrow
       (map_option (map_outcome ctx)
          (dispatch fuel (middleware h) (\<lambda>s. Some (on_ctx (routeUpdate h) s))
             \<lparr>index = 0, ctx = new_context u cl\<rparr>))"
  by (simp add: processUpdate_def runMiddleware_def option.map_comp comp_def)

lemma run_in_order_single: "run_in_order [f] s = f s"
  by (simp split: outcome.splits)

lemma processUpdate_proceeding:
  assumes mw: "middleware h = map (\<lambda>(b, a). proceeding_stage b a) ps"
      and fuel: "length ps < fuel"
  shows "processUpdate fuel h u cl =
     Some (log_and_rethrow
       (run_in_order (map fst ps @ [routeUpdate h] @ rev (map snd ps)) (new_context u cl)))"
proof -
  from fuel obtain k where k: "fuel = length ps + Suc k"
    by (metis less_iff_Suc_add add_Suc_right)
  let ?nxt = "\<lambda>s. Some (on_ctx (routeUpdate h) s)"
  let ?s0 = "\<lparr>index = 0, ctx = new_context u cl\<rparr>"
  have d: "drop (index ?s0) (middleware h) = map (\<lambda>(b, a). proceeding_stage b a) ps @ []"
    by (simp add: mw)
  have inner: "map_option (map_outcome ctx)
      (dispatch (Suc k) (middleware h) ?nxt \<lparr>index = index ?s0 + length ps, ctx = c\<rparr>) = Some (routeUpdate h c)" for c
    by (simp add: mw map_outcome_on_ctx)
  show ?thesis
    unfolding processUpdate_via_ctx k dispatch_proceeding[OF d] inner
    by (simp add: run_in_order_append run_in_order_single split: outcome.splits)
qed

lemma run_in_order_throws:
  assumes "run_in_order earlier s = Returned s1" and "logic s1 = Threw e s2"
  shows "run_in_order (earlier @ logic # later) s = Threw e s2"
  using assms by (simp add: run_in_order_append)






lemma processUpdate_enclosed_stage:
  assumes mw: "middleware h = map (\<lambda>(b, a). proceeding_stage b a) ps @ stage # later"
      and fuel: "length ps < fuel"
      and befores: "run_in_order (map fst ps) (new_context u cl) = Returned c1"
  shows "processUpdate fuel h u cl =
     map_option
       (\<lambda>r. log_and_rethrow
              (case map_outcome ctx r of
                 Threw e c' \<Rightarrow> Threw e c'
               | Returned c' \<Rightarrow> run_in_order (rev (map snd ps)) c'))
       (stage \<lparr>index = Suc (length ps), ctx = c1\<rparr>
          (dispatch (fuel - Suc (length ps)) (middleware h)
             (\<lambda>s. Some (on_ctx (routeUpdate h) s))))"
proof -
  from fuel obtain k where k: "fuel = length ps + Suc k"
    by (metis less_iff_Suc_add add_Suc_right)
  let ?nxt = "\<lambda>s. Some (on_ctx (routeUpdate h) s)"
  let ?s0 = "\<lparr>index = 0, ctx = new_context u cl\<rparr>"
  have d: "drop (index ?s0) (middleware h) =
      map (\<lambda>(b, a). proceeding_stage b a) ps @ (stage # later)"
    by (simp add: mw)
  let ?X = "stage \<lparr>index = Suc (length ps), ctx = c1\<rparr> (dispatch k (middleware h) ?nxt)"
  have inner: "dispatch (Suc k) (middleware h) ?nxt \<lparr>index = length ps, ctx = c1\<rparr> = ?X"
    by (simp add: mw nth_append)
  have through: "map_option (map_outcome ctx) (dispatch fuel (middleware h) ?nxt ?s0) =
     (case map_option (map_outcome ctx) ?X of
        None \<Rightarrow> None
      | Some (Threw e c') \<Rightarrow> Some (Threw e c')
      | Some (Returned c') \<Rightarrow> Some (run_in_order (rev (map snd ps)) c'))"
    using dispatch_proceeding[OF d, of "Suc k" ?nxt] befores inner by (simp add: k)
  have k': "fuel - Suc (length ps) = k" using k by simp
  show ?thesis
    unfolding processUpdate_via_ctx through k'
    by (cases ?X) (auto split: outcome.splits)
qed


text \<open>
  C3.  Let the stages registered before the throwing stage each run their own logic,
  call the continuation once and run their own logic again, and let their parts before
  the call return.  When the throwing stage, invoked at the state so reached with the
  rest of the chain as its continuation, ends by throwing, \<open>processUpdate\<close> throws the
  same error to its caller, after printing it: neither \<open>dispatch\<close> nor the enclosing
  stages catch it, and their parts after the call do not run.  The state is the one at
  the throw, so nothing has run after it.  The throwing stage and the stages registered
  after it are arbitrary.
\<close>

theorem C3_stage_failure_propagates:
  assumes "middleware h =
             map (\<lambda>(before, after). proceeding_stage before after) outer @ thrower # later"
      and "length outer < fuel"
      and "run_in_order (map fst outer) (new_context u cl) = Returned c1"
      and "thrower \<lparr>index = Suc (length outer), ctx = c1\<rparr>
             (dispatch (fuel - Suc (length outer)) (middleware h)
                (\<lambda>s. Some (on_ctx (routeUpdate h) s)))
           = Some (Threw e s2)"
  shows "processUpdate fuel h u cl =
     Some (Threw e (console_error ''Error processing update:'' e (ctx s2)))"
  unfolding processUpdate_enclosed_stage[OF assms(1-3)] assms(4)
  by (simp add: log_and_rethrow_def)

lemma processUpdate_throw_before_call:
  assumes mw: "middleware h = map (\<lambda>(b, a). proceeding_stage b a) ps @ rest"
      and fuel: "length ps \<le> fuel"
      and thrown: "run_in_order (map fst ps) (new_context u cl) = Threw e c2"
  shows "processUpdate fuel h u cl =
     Some (Threw e (console_error ''Error processing update:'' e c2))"
proof -
  from fuel obtain k where k: "fuel = length ps + k"
    using le_Suc_ex by blast
  let ?s0 = "\<lparr>index = 0, ctx = new_context u cl\<rparr>"
  have d: "drop (index ?s0) (middleware h) = map (\<lambda>(b, a). proceeding_stage b a) ps @ rest"
    by (simp add: mw)
  show ?thesis
    unfolding processUpdate_via_ctx k dispatch_proceeding[OF d]
    by (simp add: thrown log_and_rethrow_def)
qed

text \<open>
  The same for stages that all have the shape above, by the piece of logic that throws:
  the parts before the call, the terminal action and the parts after the call in
  reverse are the pieces in the order in which the chain runs them, and a throw from
  any of them, the earlier ones having returned, leaves \<open>processUpdate\<close> with that error
  and the state at the throw.
\<close>

lemma stage_logic_failure_propagates:
  assumes "middleware h =
             map (\<lambda>(before, after). proceeding_stage before after) stages @ unreached"
      and "length stages < fuel"
      and "map fst stages = earlier @ logic # later
           \<or> (unreached = []
               \<and> map fst stages @ [routeUpdate h] @ rev (map snd stages) = earlier @ logic # later)"
      and "run_in_order earlier (new_context u cl) = Returned c1"
      and "logic c1 = Threw e c2"
  shows "processUpdate fuel h u cl =
     Some (Threw e (console_error ''Error processing update:'' e c2))"
  using assms(3)
proof
  assume "map fst stages = earlier @ logic # later"
  then have "run_in_order (map fst stages) (new_context u cl) = Threw e c2"
    using assms(4,5) by (simp add: run_in_order_throws)
  with assms(1,2) show ?thesis
    by (intro processUpdate_throw_before_call) auto
next
  assume a: "unreached = []
     \<and> map fst stages @ [routeUpdate h] @ rev (map snd stages) = earlier @ logic # later"
  then have "run_in_order (map fst stages @ [routeUpdate h] @ rev (map snd stages))
               (new_context u cl) = Threw e c2"
    using assms(4,5) by (simp add: run_in_order_throws)
  moreover have "middleware h = map (\<lambda>(b, a). proceeding_stage b a) stages"
    using assms(1) a by simp
  ultimately show ?thesis
    using processUpdate_proceeding[OF _ assms(2), of h u cl] by (simp add: log_and_rethrow_def)
qed

section \<open>Properties of routing and of handler invocation\<close>

lemma runHandlers_returns: "\<exists>c'. runHandlers hs c = Returned c'"
  by (induction hs arbitrary: c) (auto split: outcome.splits)

lemma runHandlers_append:
  "runHandlers (xs @ ys) c =
     (case runHandlers xs c of Returned c' \<Rightarrow> runHandlers ys c' | Threw e c' \<Rightarrow> Threw e c')"
  by (induction xs arbitrary: c) (auto split: outcome.splits)

lemma run_guarded_registries:
  "run_in_order (map (\<lambda>k. if_then (P k) (runHandlers (reg k))) ks) c =
     runHandlers (concat (map reg (filter P ks))) c"
proof (induction ks arbitrary: c)
  case Nil
  show ?case by simp
next
  case (Cons k ks)
  obtain c' where c': "runHandlers (reg k) c = Returned c'"
    using runHandlers_returns by blast
  show ?case
    using Cons.IH[of c] Cons.IH[of c'] c'
    by (simp add: if_then_def runHandlers_append)
qed

lemma route_steps_table:
  "route_steps h u =
     map (\<lambda>k. if_then (field_present u k \<and> enabled h k) (runHandlers (registry h k)))
       declaration_order"
  by (simp add: route_steps_def declaration_order_def enabled_def)

lemma routeUpdate_closed_form:
  "routeUpdate h c =
     runHandlers (concat (map (registry h)
       (filter (\<lambda>k. field_present (update c) k \<and> enabled h k) declaration_order))) c"
  by (simp only: routeUpdate_def route_steps_table run_guarded_registries)

lemma declaration_order_complete: "set declaration_order = UNIV"
proof -
  have "k \<in> set declaration_order" for k
    by (cases k) (simp_all add: declaration_order_def)
  then show ?thesis by blast
qed

lemma declaration_order_distinct: "distinct declaration_order"
  by (simp add: declaration_order_def)

text \<open>
  C4.  \<open>routeUpdate\<close> tests every kind on its own: it runs, one after the other and each
  in full, the registries of exactly those kinds whose field is present on the update
  and whose toggle is on, in the fixed order of the checks (which lists every kind
  once).  When no kind matches, nothing runs and the call returns normally with the
  context unchanged.
\<close>

theorem C4_independent_kind_checks:
  "routeUpdate h c =
     runHandlers (concat (map (registry h)
       (filter (\<lambda>k. field_present (update c) k \<and> enabled h k) declaration_order))) c
   \<and> ((\<forall>k. \<not> (field_present (update c) k \<and> enabled h k)) \<longrightarrow> routeUpdate h c = Returned c)
   \<and> set declaration_order = UNIV \<and> distinct declaration_order"
  by (simp add: routeUpdate_closed_form[symmetric] declaration_order_complete
        declaration_order_distinct) (simp add: routeUpdate_closed_form)

lemma routing_handler_fields:
  "messageHandlers routing_handler = [mark ''message'']"
  "editedMessageHandlers routing_handler = [mark ''edited'']"
  "businessMessageHandlers routing_handler = [mark ''business'']"
  "inlineQueryHandlers routing_handler = [mark ''inline'']"
  "config routing_handler HandleInlineQueries = False"
  "config routing_handler HandleEditedMessages = True"
  "config routing_handler HandleBusinessMessages = True"
  by (simp_all add: routing_handler_def onInlineQuery_def onBusinessMessage_def
        onEditedMessage_def onMessage_def new_UpdateHandler_def all_defaults_def)

theorem C4_independent_kind_checks_witness:
  "routeUpdate routing_handler (new_context mixed_update accepting_client) =
     Returned ((new_context mixed_update accepting_client)
       \<lparr>trace := [Note ''message'', Note ''edited'', Note ''business'']\<rparr>)
   \<and> (\<forall>k. \<not> (field_present (update (new_context empty_update accepting_client)) k
              \<and> enabled routing_handler k))
   \<and> routeUpdate routing_handler (new_context empty_update accepting_client) =
       Returned (new_context empty_update accepting_client)"
proof -
  let ?c1 = "new_context mixed_update accepting_client"
  let ?c0 = "new_context empty_update accepting_client"
  have none: "\<not> (field_present (update ?c0) k \<and> enabled routing_handler k)" for k
    by (cases k) (simp_all add: new_context_def empty_update_def)
  have sel: "filter (\<lambda>k. field_present (update ?c1) k \<and> enabled routing_handler k)
               declaration_order = [KMessage, KEditedMessage, KBusinessMessage]"
    by (simp add: declaration_order_def new_context_def mixed_update_def empty_update_def
          enabled_def routing_handler_fields)
  have "routeUpdate routing_handler ?c1 =
     Returned (?c1\<lparr>trace := [Note ''message'', Note ''edited'', Note ''business'']\<rparr>)"
    using C4_independent_kind_checks[of routing_handler ?c1]
    by (simp add: sel routing_handler_fields mark_def) (simp add: new_context_def)
  moreover have "routeUpdate routing_handler ?c0 = Returned ?c0"
    using C4_independent_kind_checks[of routing_handler ?c0] none by blast
  ultimately show ?thesis using none by blast
qed











section \<open>Properties of the command parser and of the command router\<close>

lemma split_on_before_sep:
  "sep \<notin> set w \<Longrightarrow> split_on sep (w @ sep # rest) = w # split_on sep rest"
  by (induction w) auto

lemma split_on_no_sep: "sep \<notin> set w \<Longrightarrow> split_on sep w = [w]"
  by (induction w) auto

lemma split_on_joined:
  assumes "sep \<notin> set w" and "\<forall>a\<in>set ws. sep \<notin> set a"
  shows "split_on sep (w @ concat (map ((#) sep) ws)) = w # ws"
  using assms
proof (induction ws arbitrary: w)
  case Nil
  then show ?case by (simp add: split_on_no_sep)
next
  case (Cons a ws)
  have "split_on sep (w @ sep # (a @ concat (map ((#) sep) ws))) =
        w # split_on sep (a @ concat (map ((#) sep) ws))"
    using Cons.prems(1) by (rule split_on_before_sep)
  also have "split_on sep (a @ concat (map ((#) sep) ws)) = a # ws"
    using Cons.prems(2) by (intro Cons.IH) auto
  finally show ?case by simp
qed

lemma parse_text_joined:
  assumes "CHR '' '' \<notin> set cmd" and "CHR ''@'' \<notin> set cmd"
      and "\<forall>p\<in>set suffixes. CHR '' '' \<notin> set p \<and> CHR ''@'' \<notin> set p"
      and "\<forall>a\<in>set as. CHR '' '' \<notin> set a"
  shows "parse_text (CHR ''/'' # cmd @ concat (map ((#) CHR ''@'') suffixes)
                      @ concat (map ((#) CHR '' '') as))
         = (cmd, as, (case suffixes of [] \<Rightarrow> None | b # _ \<Rightarrow> Some b))"
proof -
  let ?part0 = "CHR ''/'' # cmd @ concat (map ((#) CHR ''@'') suffixes)"
  have nosp: "CHR '' '' \<notin> set ?part0" using assms(1,3) by auto
  have "split_on CHR '' '' (?part0 @ concat (map ((#) CHR '' '') as)) = ?part0 # as"
    using nosp assms(4) by (rule split_on_joined)
  moreover have "split_on CHR ''@'' (cmd @ concat (map ((#) CHR ''@'') suffixes)) = cmd # suffixes"
    using assms(2,3) by (intro split_on_joined) auto
  ultimately show ?thesis by (simp add: parse_text_def)
qed

text \<open>
  C8, as amended.  The parser splits the text at every space character and at nothing
  else.  A text beginning with the marker is the marker, a command name, any number of
  suffixes each led by \<open>@\<close>, and any number of arguments each led by one space; from it
  the parser stores the command name, the first suffix as \<open>botUsername\<close> (none when
  there is no suffix) and the arguments verbatim (an argument may be empty or contain
  other whitespace), and then calls the continuation.  The message is the \<open>message\<close>
  field or, in its absence, the \<open>business_message\<close> field.
\<close>

theorem C8_command_parsing:
  assumes "CHR '' '' \<notin> set cmd" and "CHR ''@'' \<notin> set cmd"
      and "\<forall>p\<in>set suffixes. CHR '' '' \<notin> set p \<and> CHR ''@'' \<notin> set p"
      and "\<forall>a\<in>set as. CHR '' '' \<notin> set a"
      and "(case message (update (ctx s)) of
              Some m' \<Rightarrow> Some m'
            | None \<Rightarrow> business_message (update (ctx s))) = Some m"
      and "msg_text m = Some (CHR ''/'' # cmd @ concat (map ((#) CHR ''@'') suffixes)
                                @ concat (map ((#) CHR '' '') as))"
  shows "commandParser s nxt =
           nxt (s\<lparr>ctx := (ctx s)\<lparr> command := Some cmd, args := Some as,
                                   botUsername := (case suffixes of [] \<Rightarrow> None | b # _ \<Rightarrow> Some b) \<rparr>\<rparr>)"
  using assms(5,6) parse_text_joined[OF assms(1-4)]
  by (simp add: commandParser_def parse_command_def startsWith_slash_def)

text \<open>
  C8 as stated fails: a tab is whitespace, yet the parser does not split at it.  For
  the text \<open>/echo<TAB>hi\<close> the rule of the specification gives the command \<open>echo\<close>
  and the argument \<open>hi\<close>; the parser gives the command \<open>echo<TAB>hi\<close> and no argument.
\<close>

theorem C8_counterexample:
  "startsWith_slash (''/echo'' @ [CHR 0x09] @ ''hi'')
   \<and> parse_text (''/echo'' @ [CHR 0x09] @ ''hi'') = (''echo'' @ [CHR 0x09] @ ''hi'', [], None)
   \<and> spec_parse_text (''/echo'' @ [CHR 0x09] @ ''hi'') = (''echo'', [''hi''], None)
   \<and> parse_text (''/echo'' @ [CHR 0x09] @ ''hi'') \<noteq> spec_parse_text (''/echo'' @ [CHR 0x09] @ ''hi'')"
  by (simp add: startsWith_slash_def parse_text_def spec_parse_text_def is_whitespace_def)

theorem C8_command_parsing_witness:
  "commandParser (parsed_state (update_with_message ''/echo@mybot hello  world''))
       (\<lambda>s. Some (Returned s)) =
     Some (Returned ((parsed_state (update_with_message ''/echo@mybot hello  world''))
       \<lparr>ctx := (new_context (update_with_message ''/echo@mybot hello  world'') accepting_client)
          \<lparr> command := Some ''echo'', args := Some [''hello'', '''', ''world''],
            botUsername := Some ''mybot'' \<rparr>\<rparr>))"
proof -
  let ?s = "parsed_state (update_with_message ''/echo@mybot hello  world'')"
  have 1: "CHR '' '' \<notin> set ''echo''" and 2: "CHR ''@'' \<notin> set ''echo''" by simp_all
  have 3: "\<forall>p\<in>set [''mybot'']. CHR '' '' \<notin> set p \<and> CHR ''@'' \<notin> set p" by simp
  have 4: "\<forall>a\<in>set [''hello'', '''', ''world'']. CHR '' '' \<notin> set a" by simp
  have 5: "(case message (update (ctx ?s)) of
              Some m' \<Rightarrow> Some m'
            | None \<Rightarrow> business_message (update (ctx ?s)))
           = Some (text_message 7 ''/echo@mybot hello  world'')"
    by (simp add: parsed_state_def new_context_def update_with_message_def)
  have 6: "msg_text (text_message 7 ''/echo@mybot hello  world'') =
      Some (CHR ''/'' # ''echo'' @ concat (map ((#) CHR ''@'') [''mybot''])
              @ concat (map ((#) CHR '' '') [''hello'', '''', ''world'']))"
    by (simp add: text_message_def)
  show ?thesis
    using C8_command_parsing[OF 1 2 3 4 5 6, of "\<lambda>s. Some (Returned s)"]
    by (simp add: parsed_state_def)
qed

lemma on_ctx_reply_absent:
  "message (update (ctx s)) = None \<Longrightarrow> on_ctx (reply_if_message txt) s = Returned s"
  by (simp add: on_ctx_def reply_if_message_def)

lemma on_ctx_reply:
  "on_ctx (reply_if_message txt) s =
     (case message (update (ctx s)) of
        Some m \<Rightarrow> on_ctx (sendMessage (chat_id m) txt) s
      | None \<Rightarrow> Returned s)"
  by (simp add: on_ctx_def reply_if_message_def split: option.splits)

lemma middleware_known_command:
  assumes "command (ctx s) = Some cmd" and "cmd \<noteq> []" and "cmd \<noteq> helpCommand r"
      and "map_of (commandMap r) cmd = Some cfg"
  shows "CommandRouter_middleware r s nxt =
     (if below_minArgs cfg (ctx s)
      then Some (on_ctx (reply_if_message
             (''Command /'' @ cmd @ '' requires at least '' @
              show_int (the (minArgs cfg)) @ '' arguments.'')) s)
      else if above_maxArgs cfg (ctx s)
      then Some (on_ctx (reply_if_message
             (''Command /'' @ cmd @ '' accepts at most '' @
              show_int (the (maxArgs cfg)) @ '' arguments.'')) s)
      else Some (on_ctx (handler cfg) s))"
  using assms by (simp add: CommandRouter_middleware_def)



lemma arity_router_lookup:
  "map_of (commandMap arity_router) ''cmd'' = Some arity_command"
  "helpCommand arity_router = ''help''"
  "unknownCommandHandler arity_router = None"
  "defaultHandler arity_router = None"
  by (simp_all add: arity_router_def CommandRouter_command_def createCommandRouter_def
        arity_command_def plain_command_def map_key_def)

lemma parse_command_message:
  assumes "startsWith_slash t" and "parse_text t = (cmd, as, suffix)"
  shows "parse_command (new_context (update_with_message t) cl) =
     (new_context (update_with_message t) cl)
       \<lparr>command := Some cmd, args := Some as, botUsername := suffix\<rparr>"
  using assms
  by (simp add: parse_command_def new_context_def update_with_message_def text_message_def)

lemma parse_command_business:
  assumes "startsWith_slash t" and "parse_text t = (cmd, as, suffix)"
  shows "parse_command (new_context (update_with_business_message t) cl) =
     (new_context (update_with_business_message t) cl)
       \<lparr>command := Some cmd, args := Some as, botUsername := suffix\<rparr>"
  using assms
  by (simp add: parse_command_def new_context_def update_with_business_message_def
        empty_update_def text_message_def)

lemma parse_examples:
  "parse_text ''/cmd a'' = (''cmd'', [''a''], None)"
  "parse_text ''/cmd a b'' = (''cmd'', [''a'', ''b''], None)"
  "parse_text ''/cmd a b c d'' = (''cmd'', [''a'', ''b'', ''c'', ''d''], None)"
  "parse_text ''/help'' = (''help'', [], None)"
  "parse_text ''/nope'' = (''nope'', [], None)"
  "startsWith_slash ''/cmd a''" "startsWith_slash ''/cmd a b''"
  "startsWith_slash ''/cmd a b c d''" "startsWith_slash ''/help''" "startsWith_slash ''/nope''"
  by (simp_all add: parse_text_def startsWith_slash_def)


lemma command_bot_middleware:
  "middleware (command_bot r) = [commandParser, CommandRouter_middleware r]"
  by (simp add: command_bot_def use_def onMessage_def onBusinessMessage_def
        new_UpdateHandler_def)

lemma command_bot_run:
  "processUpdate (Suc (Suc (Suc k))) (command_bot r) u cl =
     map_option (\<lambda>x. log_and_rethrow (map_outcome ctx x))
       (CommandRouter_middleware r
          \<lparr>index = Suc (Suc 0), ctx = parse_command (new_context u cl)\<rparr>
          (dispatch (Suc k) [commandParser, CommandRouter_middleware r]
             (\<lambda>s. Some (on_ctx (routeUpdate (command_bot r)) s))))"
  by (simp add: processUpdate_def runMiddleware_def command_bot_middleware commandParser_def)


lemma join_not_empty: "ls \<noteq> [] \<Longrightarrow> hd ls \<noteq> [] \<Longrightarrow> join sep ls \<noteq> []"
  by (induction sep ls rule: join.induct) auto

lemma generateHelp_of_entries:
  assumes "map snd (commandMap r) = cfgs"
  shows "generateHelp r =
     (if filter has_description cfgs = [] then ''No commands available.''
      else join [CHR 0x0A] (map help_line (filter has_description cfgs)))"
proof (cases "filter has_description cfgs = []")
  case True
  then show ?thesis by (simp add: generateHelp_def assms)
next
  case False
  then have "map help_line (filter has_description cfgs) \<noteq> []" by simp
  moreover have "hd (map help_line (filter has_description cfgs)) \<noteq> []"
    using False by (cases "filter has_description cfgs") (simp_all add: help_line_def)
  ultimately have "join [CHR 0x0A] (map help_line (filter has_description cfgs)) \<noteq> []"
    by (rule join_not_empty)
  then show ?thesis using False by (simp add: generateHelp_def assms Let_def)
qed

lemma middleware_help:
  assumes "command (ctx s) = Some (helpCommand r)" and "helpCommand r \<noteq> []"
  shows "CommandRouter_middleware r s nxt = Some (on_ctx (reply_if_message (generateHelp r)) s)"
  using assms by (simp add: CommandRouter_middleware_def)

lemma help_router_fields:
  "helpCommand help_router = ''help''"
  by (simp add: help_router_def CommandRouter_commands_def CommandRouter_command_def
        createCommandRouter_def plain_command_def map_key_def)

lemma map_set_on_keys:
  assumes "distinct ks"
  shows "map_set k v (map (\<lambda>k'. (k', f k')) ks) =
     (if k \<in> set ks then map (\<lambda>k'. (k', (f(k := v)) k')) ks
      else map (\<lambda>k'. (k', f k')) ks @ [(k, v)])"
  using assms by (induction ks) auto

lemma foldl_map_set_last_wins:
  "foldl (\<lambda>m x. map_set (key x) x m) [] xs =
     map (\<lambda>k. (k, last (filter (\<lambda>x. key x = k) xs))) (rev (remdups (rev (map key xs))))"
proof (induction xs rule: rev_induct)
  case Nil
  show ?case by simp
next
  case (snoc x xs)
  let ?ks = "rev (remdups (rev (map key xs)))"
  have d: "distinct ?ks" by simp
  have s: "set ?ks = key ` set xs" by simp
  show ?case
  proof (cases "key x \<in> key ` set xs")
    case True
    then show ?thesis
      by (simp add: snoc.IH map_set_on_keys[OF d])
  next
    case False
    then have "\<And>k. k \<in> key ` set xs \<Longrightarrow> key x \<noteq> k" by auto
    with False show ?thesis
      by (auto simp add: snoc.IH map_set_on_keys[OF d])
  qed
qed

lemma CommandRouter_commands_without_aliases:
  assumes "\<forall>cfg\<in>set cfgs. aliases cfg = None \<or> aliases cfg = Some []"
  shows "CommandRouter_commands lower cfgs r =
     r\<lparr>commandMap :=
         foldl (\<lambda>m cfg. map_set (map_key lower cfg (config_command cfg)) cfg m) (commandMap r) cfgs\<rparr>"
  using assms
proof (induction cfgs arbitrary: r)
  case Nil
  show ?case by (simp add: CommandRouter_commands_def)
next
  case (Cons cfg cfgs)
  have step: "CommandRouter_command lower cfg r =
      r\<lparr>commandMap := map_set (map_key lower cfg (config_command cfg)) cfg (commandMap r)\<rparr>"
    using Cons.prems by (auto simp: CommandRouter_command_def)
  have "CommandRouter_commands lower (cfg # cfgs) r =
        CommandRouter_commands lower cfgs (CommandRouter_command lower cfg r)"
    by (simp add: CommandRouter_commands_def)
  also have "\<dots> = (CommandRouter_command lower cfg r)\<lparr>commandMap :=
         foldl (\<lambda>m cfg. map_set (map_key lower cfg (config_command cfg)) cfg m)
           (commandMap (CommandRouter_command lower cfg r)) cfgs\<rparr>"
    using Cons.prems by (intro Cons.IH) simp
  finally show ?case by (simp add: step)
qed

text \<open>
  C7, as amended.  Let the commands \<open>cfgs\<close> have been registered without aliases on a
  router with an empty command map, and let the parsed command be the configured help
  command.  The command map then has one entry for each key (the name, lower-cased
  when the command sets \<open>ignoreCase\<close>), in the order in which the keys were first
  registered, holding the command registered last under that key.  The help text has
  one line \<open>/<command> - <description>\<close> for each entry whose command has a description
  that is present and not empty, joined by newlines; it is \<open>No commands available.\<close>
  when there is no such entry.  When the \<open>message\<close> field of the update is present the
  router sends this text to the chat of the message, and when it is absent it sends
  nothing; in both cases it stops: the continuation is not called and no command handler
  runs, not even one registered under the help name.
\<close>

theorem C7_help_command:
  assumes "commandMap r0 = []"
      and "\<forall>cfg\<in>set cfgs. aliases cfg = None \<or> aliases cfg = Some []"
      and "command (ctx s) = Some (helpCommand r0)" and "helpCommand r0 \<noteq> []"
      and "keys = rev (remdups (rev (map (\<lambda>cfg. map_key lower cfg (config_command cfg)) cfgs)))"
      and "entries =
             map (\<lambda>k. last (filter (\<lambda>cfg. map_key lower cfg (config_command cfg) = k) cfgs)) keys"
      and "described =
             filter (\<lambda>cfg. description cfg \<noteq> None \<and> description cfg \<noteq> Some []) entries"
      and "help_text =
             (if described = [] then ''No commands available.''
              else join [CHR 0x0A]
                     (map (\<lambda>cfg. ''/'' @ config_command cfg @ '' - ''
                                  @ (case description cfg of Some d \<Rightarrow> d | None \<Rightarrow> []))
                        described))"
  shows "CommandRouter_middleware (CommandRouter_commands lower cfgs r0) s nxt =
     (case message (update (ctx s)) of
        Some m \<Rightarrow> Some (on_ctx (sendMessage (chat_id m) help_text) s)
      | None \<Rightarrow> Some (Returned s))"
proof -
  let ?r = "CommandRouter_commands lower cfgs r0"
  have r: "?r = r0\<lparr>commandMap :=
      map (\<lambda>k. (k, last (filter (\<lambda>cfg. map_key lower cfg (config_command cfg) = k) cfgs))) keys\<rparr>"
    unfolding CommandRouter_commands_without_aliases[OF assms(2)] assms(1,5)
      foldl_map_set_last_wins ..
  have stored: "map snd (commandMap ?r) = entries"
    by (simp add: r assms(6) comp_def)
  have hc: "helpCommand ?r = helpCommand r0" by (simp add: r)
  have d: "filter has_description entries = described"
    unfolding assms(7) by (intro filter_cong) (auto simp: has_description_def split: option.splits)
  have l: "map help_line described =
           map (\<lambda>cfg. ''/'' @ config_command cfg @ '' - ''
                       @ (case description cfg of Some d \<Rightarrow> d | None \<Rightarrow> [])) described"
    unfolding assms(7) by (intro map_cong) (auto simp: help_line_def split: option.splits)
  have "generateHelp ?r = help_text"
    unfolding generateHelp_of_entries[OF stored] d l assms(8) by simp
  then show ?thesis
    using middleware_help[of s ?r nxt] assms(3,4)
    by (simp add: hc on_ctx_reply split: option.splits)
qed

lemma ascii_lower_Start: "ascii_lower ''Start'' = ''start''"
  by code_simp

theorem C7_help_command_witness:
  "CommandRouter_middleware (CommandRouter_commands ascii_lower relisted_commands createCommandRouter)
       (router_state (update_with_message ''/help'')) (\<lambda>s. None) =
     Some (Returned \<lparr> index = 2,
       ctx = (new_context (update_with_message ''/help'') accepting_client)
         \<lparr> command := Some ''help'', args := Some [], botUsername := None,
           trace := [SendMessage 7
             (''/Start - Start again'' @ [CHR 0x0A] @ ''/help - Show help'')] \<rparr> \<rparr>)"
proof -
  let ?s = "router_state (update_with_message ''/help'')"
  let ?cfg_again = "(plain_command ''Start'' (Some ''Start again'') (mark ''second start handler''))
         \<lparr>ignoreCase := Some True\<rparr>"
  let ?cfg_debug = "plain_command ''debug'' None (mark ''debug handler'')"
  let ?cfg_help = "plain_command ''help'' (Some ''Show help'') (mark ''help handler'')"
  let ?text = "''/Start - Start again'' @ [CHR 0x0A] @ ''/help - Show help''"
  note pc = parse_command_message[OF parse_examples(9) parse_examples(4)]
  have 1: "commandMap createCommandRouter = []" by (simp add: createCommandRouter_def)
  have 2: "\<forall>cfg\<in>set relisted_commands. aliases cfg = None \<or> aliases cfg = Some []"
    by (simp add: relisted_commands_def plain_command_def)
  have 3: "command (ctx ?s) = Some (helpCommand createCommandRouter)"
    by (simp add: router_state_def pc createCommandRouter_def)
  have 4: "helpCommand createCommandRouter \<noteq> []" by (simp add: createCommandRouter_def)
  have 5: "[''start'', ''debug'', ''help''] =
      rev (remdups (rev (map (\<lambda>cfg. map_key ascii_lower cfg (config_command cfg))
        relisted_commands)))"
    by (simp add: relisted_commands_def plain_command_def map_key_def ascii_lower_Start)
  have 6: "[?cfg_again, ?cfg_debug, ?cfg_help] =
      map (\<lambda>k. last (filter (\<lambda>cfg. map_key ascii_lower cfg (config_command cfg) = k)
                   relisted_commands)) [''start'', ''debug'', ''help'']"
    by (simp add: relisted_commands_def plain_command_def map_key_def ascii_lower_Start)
  have 7: "[?cfg_again, ?cfg_help] =
      filter (\<lambda>cfg. description cfg \<noteq> None \<and> description cfg \<noteq> Some []) [?cfg_again, ?cfg_debug, ?cfg_help]"
    by (simp add: plain_command_def)
  have 8: "?text =
             (if [?cfg_again, ?cfg_help] = [] then ''No commands available.''
              else join [CHR 0x0A]
                     (map (\<lambda>cfg. ''/'' @ config_command cfg @ '' - ''
                                  @ (case description cfg of Some d \<Rightarrow> d | None \<Rightarrow> []))
                        [?cfg_again, ?cfg_help]))"
    by (simp add: plain_command_def)
  have m: "message (update (ctx ?s)) = Some (text_message 7 ''/help'')"
    unfolding router_state_def dispatch_state.simps pc
    by (simp add: new_context_def update_with_message_def)
  have e: "on_ctx (sendMessage (chat_id (text_message 7 ''/help'')) ?text) ?s =
     Returned \<lparr> index = 2,
       ctx = (new_context (update_with_message ''/help'') accepting_client)
         \<lparr> command := Some ''help'', args := Some [], botUsername := None,
           trace := [SendMessage 7 ?text] \<rparr> \<rparr>"
    unfolding router_state_def pc
    by (simp add: on_ctx_def sendMessage_def new_context_def accepting_client_def
          text_message_def)
  have r: "CommandRouter_middleware
        (CommandRouter_commands ascii_lower relisted_commands createCommandRouter) ?s (\<lambda>s. None) =
      Some (on_ctx (sendMessage (chat_id (text_message 7 ''/help'')) ?text) ?s)"
    using C7_help_command[OF 1 2 3 4 5 6 7 8, where nxt = "\<lambda>s. None"]
    unfolding m by simp
  show ?thesis
    unfolding r e by simp
qed

text \<open>
  C7 as stated fails: the help command sent in a business message is answered with no
  reply at all.  The parser has stored the command, the router stops, and the trace
  stays empty.
\<close>

theorem C7_counterexample:
  "processUpdate (Suc (Suc (Suc 0))) (command_bot help_router)
      (update_with_business_message ''/help'') accepting_client =
     Some (Returned
       \<lparr> update = update_with_business_message ''/help'', client = accepting_client,
         command = Some ''help'', args = Some [], botUsername = None, trace = [] \<rparr>)"
proof -
  let ?c = "(new_context (update_with_business_message ''/help'') accepting_client)
              \<lparr>command := Some ''help'', args := Some [], botUsername := None\<rparr>"
  have absent: "message (update ?c) = None"
    by (simp add: new_context_def update_with_business_message_def empty_update_def)
  have "CommandRouter_middleware help_router \<lparr>index = Suc (Suc 0), ctx = ?c\<rparr> K =
          Some (Returned \<lparr>index = Suc (Suc 0), ctx = ?c\<rparr>)" for K
    using absent
    by (simp add: CommandRouter_middleware_def help_router_fields on_ctx_def
          reply_if_message_def)
  then show ?thesis
    unfolding command_bot_run parse_command_business[OF parse_examples(9) parse_examples(4)]
    by (simp add: log_and_rethrow_def new_context_def)
qed

text \<open>
  C10.  Let a command have been parsed while the \<open>message\<close> field of the update is
  absent (the parser takes it from \<open>business_message\<close> then).  On the help command, on
  a violated minimum, on a violated maximum, and on an unknown command with no handler
  for unknown commands, the router stops with the state unchanged: nothing is sent and
  the continuation is not called.  A matched command whose number of arguments is within
  its declared bounds still has its handler invoked.
\<close>

theorem C10_replies_need_message:
  assumes "message (update (ctx s)) = None"
      and "command (ctx s) = Some cmd" and "cmd \<noteq> []"
  shows "(cmd = helpCommand r \<longrightarrow> CommandRouter_middleware r s nxt = Some (Returned s))
       \<and> (cmd \<noteq> helpCommand r \<and> map_of (commandMap r) cmd = Some cfg
            \<and> args (ctx s) = Some as \<and> minArgs cfg = Some lo \<and> int (length as) < lo \<longrightarrow>
            CommandRouter_middleware r s nxt = Some (Returned s))
       \<and> (cmd \<noteq> helpCommand r \<and> map_of (commandMap r) cmd = Some cfg
            \<and> args (ctx s) = Some as
            \<and> (case minArgs cfg of None \<Rightarrow> True | Some lo' \<Rightarrow> lo' \<le> int (length as))
            \<and> maxArgs cfg = Some hi \<and> hi \<noteq> 0 \<and> hi < int (length as) \<longrightarrow>
            CommandRouter_middleware r s nxt = Some (Returned s))
       \<and> (cmd \<noteq> helpCommand r \<and> map_of (commandMap r) cmd = None
            \<and> unknownCommandHandler r = None \<longrightarrow>
            CommandRouter_middleware r s nxt = Some (Returned s))
       \<and> (cmd \<noteq> helpCommand r \<and> map_of (commandMap r) cmd = Some cfg
            \<and> args (ctx s) = Some as
            \<and> (case minArgs cfg of None \<Rightarrow> True | Some lo' \<Rightarrow> lo' \<le> int (length as))
            \<and> (case maxArgs cfg of None \<Rightarrow> True | Some hi' \<Rightarrow> int (length as) \<le> hi') \<longrightarrow>
            CommandRouter_middleware r s nxt = Some (on_ctx (handler cfg) s))"
proof (intro conjI impI)
  assume "cmd = helpCommand r"
  then show "CommandRouter_middleware r s nxt = Some (Returned s)"
    using assms by (simp add: CommandRouter_middleware_def on_ctx_reply_absent)
next
  assume a: "cmd \<noteq> helpCommand r \<and> map_of (commandMap r) cmd = Some cfg
            \<and> args (ctx s) = Some as \<and> minArgs cfg = Some lo \<and> int (length as) < lo"
  then have "below_minArgs cfg (ctx s)" by (auto simp: below_minArgs_def)
  then show "CommandRouter_middleware r s nxt = Some (Returned s)"
    using a assms by (simp add: middleware_known_command on_ctx_reply_absent)
next
  assume a: "cmd \<noteq> helpCommand r \<and> map_of (commandMap r) cmd = Some cfg
            \<and> args (ctx s) = Some as
            \<and> (case minArgs cfg of None \<Rightarrow> True | Some lo' \<Rightarrow> lo' \<le> int (length as))
            \<and> maxArgs cfg = Some hi \<and> hi \<noteq> 0 \<and> hi < int (length as)"
  then have "\<not> below_minArgs cfg (ctx s)" and "above_maxArgs cfg (ctx s)"
    by (auto simp: below_minArgs_def above_maxArgs_def split: option.splits)
  then show "CommandRouter_middleware r s nxt = Some (Returned s)"
    using a assms by (simp add: middleware_known_command on_ctx_reply_absent)
next
  assume "cmd \<noteq> helpCommand r \<and> map_of (commandMap r) cmd = None
            \<and> unknownCommandHandler r = None"
  then show "CommandRouter_middleware r s nxt = Some (Returned s)"
    using assms by (simp add: CommandRouter_middleware_def on_ctx_reply_absent)
next
  assume a: "cmd \<noteq> helpCommand r \<and> map_of (commandMap r) cmd = Some cfg
            \<and> args (ctx s) = Some as
            \<and> (case minArgs cfg of None \<Rightarrow> True | Some lo' \<Rightarrow> lo' \<le> int (length as))
            \<and> (case maxArgs cfg of None \<Rightarrow> True | Some hi' \<Rightarrow> int (length as) \<le> hi')"
  then have "\<not> below_minArgs cfg (ctx s)" and "\<not> above_maxArgs cfg (ctx s)"
    by (auto simp: below_minArgs_def above_maxArgs_def split: option.splits)
  then show "CommandRouter_middleware r s nxt = Some (on_ctx (handler cfg) s)"
    using a assms by (simp add: middleware_known_command)
qed

theorem C10_replies_need_message_witness:
  "CommandRouter_middleware help_router (router_state (update_with_business_message ''/help''))
       (\<lambda>s. None) = Some (Returned (router_state (update_with_business_message ''/help'')))
   \<and> CommandRouter_middleware arity_router (router_state (update_with_business_message ''/cmd a''))
       (\<lambda>s. None) = Some (Returned (router_state (update_with_business_message ''/cmd a'')))
   \<and> CommandRouter_middleware arity_router
       (router_state (update_with_business_message ''/cmd a b c d''))
       (\<lambda>s. None) = Some (Returned (router_state (update_with_business_message ''/cmd a b c d'')))
   \<and> CommandRouter_middleware arity_router (router_state (update_with_business_message ''/nope''))
       (\<lambda>s. None) = Some (Returned (router_state (update_with_business_message ''/nope'')))
   \<and> CommandRouter_middleware arity_router (router_state (update_with_business_message ''/cmd a b''))
       (\<lambda>s. None) =
      Some (Returned \<lparr> index = 2,
        ctx = (new_context (update_with_business_message ''/cmd a b'') accepting_client)
          \<lparr> command := Some ''cmd'', args := Some [''a'', ''b''], botUsername := None,
            trace := [Note ''ran''] \<rparr> \<rparr>)
   \<and> trace (ctx (router_state (update_with_business_message ''/help''))) = []"
proof -
  let ?h = "router_state (update_with_business_message ''/help'')"
  let ?s1 = "router_state (update_with_business_message ''/cmd a'')"
  let ?s2 = "router_state (update_with_business_message ''/cmd a b c d'')"
  let ?s3 = "router_state (update_with_business_message ''/cmd a b'')"
  let ?u = "router_state (update_with_business_message ''/nope'')"
  note pc = parse_command_business[OF parse_examples(9) parse_examples(4)]
    parse_command_business[OF parse_examples(6) parse_examples(1)]
    parse_command_business[OF parse_examples(8) parse_examples(3)]
    parse_command_business[OF parse_examples(7) parse_examples(2)]
    parse_command_business[OF parse_examples(10) parse_examples(5)]
  have absent: "message (update (ctx ?h)) = None" "message (update (ctx ?s1)) = None"
    "message (update (ctx ?s2)) = None" "message (update (ctx ?s3)) = None"
    "message (update (ctx ?u)) = None"
    unfolding router_state_def dispatch_state.simps pc
    by (simp_all add: new_context_def update_with_business_message_def empty_update_def)
  have c: "command (ctx ?h) = Some ''help''" "command (ctx ?s1) = Some ''cmd''"
    "command (ctx ?s2) = Some ''cmd''" "command (ctx ?s3) = Some ''cmd''"
    "command (ctx ?u) = Some ''nope''"
    by (simp_all add: router_state_def pc)
  have a: "args (ctx ?s1) = Some [''a'']" "args (ctx ?s2) = Some [''a'', ''b'', ''c'', ''d'']"
    "args (ctx ?s3) = Some [''a'', ''b'']"
    by (simp_all add: router_state_def pc)
  have ne: "''help'' \<noteq> []" "''cmd'' \<noteq> []" "''nope'' \<noteq> []" by simp_all
  have other: "map_of (commandMap arity_router) ''nope'' = None"
    by (simp add: arity_router_def CommandRouter_command_def createCommandRouter_def
        arity_command_def plain_command_def map_key_def)
  have r0: "CommandRouter_middleware help_router ?h (\<lambda>s. None) = Some (Returned ?h)"
    using C10_replies_need_message[OF absent(1) c(1) ne(1), where r = help_router
        and nxt = "\<lambda>s. None"]
    by (simp add: help_router_fields)
  have r1: "CommandRouter_middleware arity_router ?s1 (\<lambda>s. None) = Some (Returned ?s1)"
    using C10_replies_need_message[OF absent(2) c(2) ne(2), where r = arity_router
        and cfg = arity_command and as = "[''a'']" and lo = 2 and nxt = "\<lambda>s. None"] a(1)
    by (simp add: arity_router_lookup arity_command_def plain_command_def)
  have r2: "CommandRouter_middleware arity_router ?s2 (\<lambda>s. None) = Some (Returned ?s2)"
    using C10_replies_need_message[OF absent(3) c(3) ne(2), where r = arity_router
        and cfg = arity_command and as = "[''a'', ''b'', ''c'', ''d'']" and hi = 3
        and nxt = "\<lambda>s. None"] a(2)
    by (simp add: arity_router_lookup arity_command_def plain_command_def)
  have r3: "CommandRouter_middleware arity_router ?u (\<lambda>s. None) = Some (Returned ?u)"
    using C10_replies_need_message[OF absent(5) c(5) ne(3), where r = arity_router
        and nxt = "\<lambda>s. None"] other
    by (simp add: arity_router_lookup)
  have r4: "CommandRouter_middleware arity_router ?s3 (\<lambda>s. None) =
      Some (on_ctx (handler arity_command) ?s3)"
    using C10_replies_need_message[OF absent(4) c(4) ne(2), where r = arity_router
        and cfg = arity_command and as = "[''a'', ''b'']" and nxt = "\<lambda>s. None"] a(3)
    by (simp add: arity_router_lookup arity_command_def plain_command_def)
  have e4: "on_ctx (handler arity_command) ?s3 =
      Returned \<lparr> index = 2,
        ctx = (new_context (update_with_business_message ''/cmd a b'') accepting_client)
          \<lparr> command := Some ''cmd'', args := Some [''a'', ''b''], botUsername := None,
            trace := [Note ''ran''] \<rparr> \<rparr>"
    unfolding router_state_def pc
    by (simp add: on_ctx_def new_context_def arity_command_def plain_command_def mark_def)
  have t: "trace (ctx ?h) = []"
    unfolding router_state_def dispatch_state.simps pc by (simp add: new_context_def)
  show ?thesis
    unfolding r0 r1 r2 r3 r4 e4 t by simp
qed

text \<open>
  Two behaviours that the amended statements of C6 and C7 leave aside.  A declared
  maximum of zero is falsy, so the check of the maximum is skipped and the handler runs
  on a command that was sent with an argument.
\<close>

lemma maximum_of_zero_is_not_checked:
  "CommandRouter_middleware (CommandRouter_command ascii_lower no_argument_command createCommandRouter)
       \<lparr> index = 2,
         ctx = (new_context (update_with_message ''/ping extra'') accepting_client)
           \<lparr> command := Some ''ping'', args := Some [''extra''] \<rparr> \<rparr>
       (\<lambda>s. None) =
     Some (Returned \<lparr> index = 2,
       ctx = (new_context (update_with_message ''/ping extra'') accepting_client)
         \<lparr> command := Some ''ping'', args := Some [''extra''], trace := [Note ''ran''] \<rparr> \<rparr>)"
  by (simp add: CommandRouter_middleware_def CommandRouter_command_def createCommandRouter_def
        no_argument_command_def plain_command_def map_key_def below_minArgs_def
        above_maxArgs_def on_ctx_def mark_def new_context_def)

text \<open>
  The help text is made from the values of the command map, and a command is stored
  once under its name and once under each alias, so it is listed once for each of them.
\<close>

lemma aliased_command_is_listed_twice:
  "generateHelp (CommandRouter_command ascii_lower aliased_command createCommandRouter) =
     ''/ping - Ping'' @ [CHR 0x0A] @ ''/ping - Ping''"
  by (simp add: generateHelp_def CommandRouter_command_def createCommandRouter_def
        aliased_command_def plain_command_def map_key_def has_description_def help_line_def
        Let_def)

section \<open>The command router as a stage of the chain\<close>

lemma commandParser_proceeding: "commandParser = as_stage parser_stage"
  by (intro ext)
     (simp add: commandParser_def as_stage_def parser_stage_def proceeding_stage_def on_ctx_def
        split: option.splits outcome.splits)

lemma routed_handler_middleware:
  "middleware routed_handler =
     map (\<lambda>(before, after). proceeding_stage before after) [stage_A, parser_stage]
     @ CommandRouter_middleware arity_router # [as_stage stage_C]"
  by (simp add: routed_handler_def use_def onMessage_def new_UpdateHandler_def
        commandParser_proceeding as_stage_def stage_A_def parser_stage_def)

lemma parse_command_of_message:
  assumes "update c = update_with_message t"
      and "startsWith_slash t" and "parse_text t = (cmd, as, suffix)"
  shows "parse_command c = c\<lparr>command := Some cmd, args := Some as, botUsername := suffix\<rparr>"
  using assms
  by (simp add: parse_command_def update_with_message_def text_message_def)

lemma routed_handler_reaches_router:
  "run_in_order (map fst [stage_A, parser_stage]) (new_context (update_with_message ''/nope'') cl)
     = Returned ((new_context (update_with_message ''/nope'') cl)
         \<lparr>command := Some ''nope'', args := Some [], botUsername := None,
          trace := [Note ''A before'']\<rparr>)"
proof -
  let ?c = "(new_context (update_with_message ''/nope'') cl)\<lparr>trace := [Note ''A before'']\<rparr>"
  have u: "update ?c = update_with_message ''/nope''" by (simp add: new_context_def)
  have "mark ''A before'' (new_context (update_with_message ''/nope'') cl) = Returned ?c"
    by (simp add: mark_def new_context_def)
  then show ?thesis
    by (simp add: stage_A_def parser_stage_def
          parse_command_of_message[OF u parse_examples(10) parse_examples(5)])
qed

lemma router_on_unknown_command:
  assumes "message (update c) = Some m" and "command c = Some ''nope''"
  shows "CommandRouter_middleware arity_router \<lparr>index = i, ctx = c\<rparr> nxt =
     Some (on_ctx (sendMessage (chat_id m)
        ''Unknown command: /nope. Type /help for available commands.'')
        \<lparr>index = i, ctx = c\<rparr>)"
proof -
  have "map_of (commandMap arity_router) ''nope'' = None"
    by (simp add: arity_router_def CommandRouter_command_def createCommandRouter_def
        arity_command_def plain_command_def map_key_def)
  then show ?thesis
    using assms
    by (simp add: CommandRouter_middleware_def arity_router_lookup on_ctx_reply)
qed


theorem C3_stage_failure_propagates_witness:
  "middleware routed_handler =
     map (\<lambda>(before, after). proceeding_stage before after) [stage_A, parser_stage]
     @ CommandRouter_middleware arity_router # [as_stage stage_C]
   \<and> length [stage_A, parser_stage] < 5
   \<and> processUpdate 5 routed_handler (update_with_message ''/nope'') rejecting_client =
       Some (Threw (Error ''rejected'')
         ((new_context (update_with_message ''/nope'') rejecting_client)
           \<lparr>command := Some ''nope'', args := Some [], botUsername := None,
            trace := [Note ''A before'',
                      SendMessage 7 ''Unknown command: /nope. Type /help for available commands.'',
                      ConsoleError ''Error processing update:'' (Error ''rejected'')]\<rparr>))"
proof -
  let ?u = "update_with_message ''/nope''"
  let ?c1 = "(new_context ?u rejecting_client)
         \<lparr>command := Some ''nope'', args := Some [], botUsername := None,
          trace := [Note ''A before'']\<rparr>"
  let ?c2 = "(new_context ?u rejecting_client)
         \<lparr>command := Some ''nope'', args := Some [], botUsername := None,
          trace := [Note ''A before'',
                    SendMessage 7 ''Unknown command: /nope. Type /help for available commands.'']\<rparr>"
  have len: "length [stage_A, parser_stage] < 5" by simp
  have msg: "message (update ?c1) = Some (text_message 7 ''/nope'')"
    by (simp add: new_context_def update_with_message_def)
  have throws: "CommandRouter_middleware arity_router
        \<lparr>index = Suc (length [stage_A, parser_stage]), ctx = ?c1\<rparr> nxt =
      Some (Threw (Error ''rejected'')
              \<lparr>index = Suc (length [stage_A, parser_stage]), ctx = ?c2\<rparr>)" for nxt
    unfolding router_on_unknown_command[OF msg, of _ nxt, simplified]
    by (simp add: on_ctx_def sendMessage_def new_context_def rejecting_client_def
          text_message_def)
  show ?thesis
    using C3_stage_failure_propagates[OF routed_handler_middleware len
        routed_handler_reaches_router throws]
      routed_handler_middleware
    by (simp add: console_error_def new_context_def)
qed

end
